theory Spec2Isabelle
  imports Complex_Main
begin

chapter \<open>Tomeus: text fitting, overlay geometry, export and response validation\<close>

text \<open>
  A shallow embedding of the TypeScript sources of the Tomeus translation overlay
  application: the word wrap and the font-size fitting loop of the export path
  (\<^verbatim>\<open>getWrappedLines\<close>, \<^verbatim>\<open>drawTextAndFit\<close>), the block loop and the file name of
  \<^verbatim>\<open>handleDownload\<close>, the popover placement of \<^verbatim>\<open>handleMouseEnter\<close>, and the
  validation of the parsed model response in \<^verbatim>\<open>translateImageContent\<close> together with
  the state update of \<^verbatim>\<open>handleTranslate\<close>.

  Conventions of the embedding.
  \<^item> A JavaScript \<^verbatim>\<open>number\<close> is an IEEE-754 binary64 value, and the arithmetic has two
    readings here. In the first every operation is exact and a number is a \<^typ>\<open>real\<close>:
    the functions \<^verbatim>\<open>fit_loop\<close>, \<^verbatim>\<open>drawTextAndFit\<close> and \<^verbatim>\<open>pixel_box\<close>. In the second
    every operation rounds to binary64 as the code does: the functions
    \<^verbatim>\<open>fit_loop_double\<close>, \<^verbatim>\<open>drawTextAndFit_double\<close> and \<^verbatim>\<open>pixel_box_double\<close> and the export
    loop built on them; it is the reading in which the loop of the fitting can fail to
    end. \<^verbatim>\<open>NaN\<close> and the infinities as arguments are outside both. The loop variable
    \<^verbatim>\<open>fontSize\<close>, which starts at \<^verbatim>\<open>Math.floor(height / 2)\<close> and only ever has 1 taken from
    it, holds an integer, an \<^typ>\<open>int\<close>.
  \<^item> A JavaScript string is a \<^typ>\<open>string\<close>; the operations used here (\<^verbatim>\<open>split(' ')\<close>,
    concatenation, \<^verbatim>\<open>lastIndexOf\<close>, \<^verbatim>\<open>substring\<close>) act on it unit by unit.
  \<^item> The 2D drawing context is a record of the settings the code writes (font size,
    baseline, fill style, the stack of \<^verbatim>\<open>save()\<close>) and the list of drawing calls issued so
    far, each text and rectangle call stamped with the settings in force. The browser's
    \<^verbatim>\<open>measureText\<close> is a parameter: a function from the font size in force and a string
    to a width.
  \<^item> Function arguments have their TypeScript types; none of the calls made by the
    drawing code can throw on such arguments, so these functions have no error branch.
    Functions that \<^verbatim>\<open>throw\<close> return a sum type with the error on the left.
\<close>

section \<open>The embedding\<close>

subsection \<open>Word wrap: \<^verbatim>\<open>getWrappedLines\<close>\<close>

text \<open>\<^verbatim>\<open>text.split(sep)\<close> for a one-character separator: the pieces between the
  separators, empty pieces included; the empty string gives one empty piece.\<close>

fun split_on :: "char \<Rightarrow> string \<Rightarrow> string list" where
  "split_on sep [] = [[]]"
| "split_on sep (c # cs) =
     (if c = sep then [] # split_on sep cs
      else (case split_on sep cs of
              w # ws \<Rightarrow> (c # w) # ws
            | [] \<Rightarrow> [[c]]))"

text \<open>The \<^verbatim>\<open>for\<close> loop of \<^verbatim>\<open>getWrappedLines\<close>, with its index \<^verbatim>\<open>i\<close> and the two
  variables it updates, \<^verbatim>\<open>lines\<close> and \<^verbatim>\<open>currentLine\<close>. The first argument is
  \<^verbatim>\<open>ctx.measureText(_).width\<close> at the font in force.\<close>

function wrap_loop ::
  "(string \<Rightarrow> real) \<Rightarrow> real \<Rightarrow> string list \<Rightarrow> nat \<Rightarrow> string list \<Rightarrow> string
     \<Rightarrow> string list \<times> string" where
  "wrap_loop measureText maxWidth words i lines currentLine =
     (if i < length words then
        (let word = words ! i;
             testLine = (if currentLine = [] then word else currentLine @ '' '' @ word);
             width = measureText testLine
         in if width < maxWidth \<or> currentLine = []
            then wrap_loop measureText maxWidth words (i + 1) lines testLine
            else wrap_loop measureText maxWidth words (i + 1) (lines @ [currentLine]) word)
      else (lines, currentLine))"
  by pat_completeness auto
termination
  by (relation "measure (\<lambda>(m, mw, ws, i, ls, c). length ws - i)") auto

text \<open>The body of \<^verbatim>\<open>getWrappedLines\<close> after the split: the loop from index 0 with no
  lines and an empty current line, then \<^verbatim>\<open>if (currentLine) lines.push(currentLine)\<close>.\<close>

definition wrap_words :: "(string \<Rightarrow> real) \<Rightarrow> real \<Rightarrow> string list \<Rightarrow> string list" where
  "wrap_words measureText maxWidth words =
     (case wrap_loop measureText maxWidth words 0 [] [] of
        (lines, currentLine) \<Rightarrow>
          if currentLine \<noteq> [] then lines @ [currentLine] else lines)"

definition getWrappedLines :: "(string \<Rightarrow> real) \<Rightarrow> string \<Rightarrow> real \<Rightarrow> string list" where
  "getWrappedLines measureText text maxWidth =
     (if text = [] then [] else wrap_words measureText maxWidth (split_on CHR '' '' text))"

text \<open>Joining strings with single spaces, the inverse of the split; the source has no
  such call, the properties of the wrap are stated with it.\<close>

fun join_space :: "string list \<Rightarrow> string" where
  "join_space [] = []"
| "join_space [w] = w"
| "join_space (w # v # ws) = w @ '' '' @ join_space (v # ws)"

text \<open>The greedy wrap as the specification words it, to be compared with
  \<^const>\<open>wrap_words\<close>: start with no output and an empty line; for each word in input
  order, the extended line is the word itself when the line is empty and the line, a
  space and the word otherwise; if the extended line measures under the maximum width
  or the line is empty, the extension is accepted, otherwise the line is committed to
  the output and a new line starts with just that word; after all words a non-empty
  line is committed.\<close>

definition greedy_step ::
  "(string \<Rightarrow> real) \<Rightarrow> real \<Rightarrow> string list \<times> string \<Rightarrow> string \<Rightarrow> string list \<times> string" where
  "greedy_step m mw st word =
     (case st of (out, line) \<Rightarrow>
        (let extended = (if line = [] then word else line @ '' '' @ word)
         in if m extended < mw \<or> line = [] then (out, extended)
            else (out @ [line], word)))"

definition greedy_wrap :: "(string \<Rightarrow> real) \<Rightarrow> real \<Rightarrow> string list \<Rightarrow> string list" where
  "greedy_wrap m mw words =
     (case foldl (greedy_step m mw) ([], []) words of
        (out, line) \<Rightarrow> if line \<noteq> [] then out @ [line] else out)"

subsection \<open>The drawing context\<close>

text \<open>The drawing calls the code issues. A rectangle fill carries the fill style in
  force; a text fill carries the string, the position, and the font size, fill style and
  baseline in force.\<close>

datatype canvas_op =
    DrawImage real real
  | FillRect real real real real string
  | FillText string real real int string string
  | Save
  | BeginPath
  | Rect real real real real
  | Clip
  | Restore

text \<open>\<^verbatim>\<open>font\<close> is the size \<open>n\<close> of the font string \<^verbatim>\<open>`${n}px sans-serif`\<close>, the only
  fonts the code sets; \<^verbatim>\<open>saved\<close> is the stack of \<^verbatim>\<open>save()\<close>.\<close>

record canvas_ctx =
  font :: int
  textBaseline :: string
  fillStyle :: string
  saved :: "(int \<times> string \<times> string) list"
  ops :: "canvas_op list"

text \<open>A context as \<^verbatim>\<open>canvas.getContext('2d')\<close> returns it for a new canvas.\<close>

definition blank_ctx :: canvas_ctx where
  "blank_ctx = \<lparr>font = 10, textBaseline = ''alphabetic'', fillStyle = ''#000000'',
                 saved = [], ops = []\<rparr>"

definition measureText :: "(int \<Rightarrow> string \<Rightarrow> real) \<Rightarrow> canvas_ctx \<Rightarrow> string \<Rightarrow> real" where
  "measureText M ctx s = M (font ctx) s"

definition fillText :: "canvas_ctx \<Rightarrow> string \<Rightarrow> real \<Rightarrow> real \<Rightarrow> canvas_ctx" where
  "fillText ctx s px py =
     ctx\<lparr>ops := ops ctx @ [FillText s px py (font ctx) (fillStyle ctx) (textBaseline ctx)]\<rparr>"

definition fillRect :: "canvas_ctx \<Rightarrow> real \<Rightarrow> real \<Rightarrow> real \<Rightarrow> real \<Rightarrow> canvas_ctx" where
  "fillRect ctx px py w h = ctx\<lparr>ops := ops ctx @ [FillRect px py w h (fillStyle ctx)]\<rparr>"

definition drawImage :: "canvas_ctx \<Rightarrow> real \<Rightarrow> real \<Rightarrow> canvas_ctx" where
  "drawImage ctx px py = ctx\<lparr>ops := ops ctx @ [DrawImage px py]\<rparr>"

definition save :: "canvas_ctx \<Rightarrow> canvas_ctx" where
  "save ctx = ctx\<lparr>saved := (font ctx, textBaseline ctx, fillStyle ctx) # saved ctx,
                    ops := ops ctx @ [Save]\<rparr>"

text \<open>\<^verbatim>\<open>restore()\<close> on an empty stack does nothing.\<close>

definition restore :: "canvas_ctx \<Rightarrow> canvas_ctx" where
  "restore ctx =
     (case saved ctx of
        [] \<Rightarrow> ctx
      | (f, b, c) # rest \<Rightarrow>
          ctx\<lparr>font := f, textBaseline := b, fillStyle := c, saved := rest,
              ops := ops ctx @ [Restore]\<rparr>)"

definition beginPath :: "canvas_ctx \<Rightarrow> canvas_ctx" where
  "beginPath ctx = ctx\<lparr>ops := ops ctx @ [BeginPath]\<rparr>"

definition rect :: "canvas_ctx \<Rightarrow> real \<Rightarrow> real \<Rightarrow> real \<Rightarrow> real \<Rightarrow> canvas_ctx" where
  "rect ctx px py w h = ctx\<lparr>ops := ops ctx @ [Rect px py w h]\<rparr>"

definition clip :: "canvas_ctx \<Rightarrow> canvas_ctx" where
  "clip ctx = ctx\<lparr>ops := ops ctx @ [Clip]\<rparr>"

subsection \<open>Text fitting in exact arithmetic: \<^verbatim>\<open>drawTextAndFit\<close>\<close>

text \<open>The loop over the lines, which the accepting branch and the fallback share word
  for word: measure the line, centre it horizontally, and fill it at
  \<^verbatim>\<open>y + (i * lineHeight)\<close>.\<close>

function draw_lines ::
  "(int \<Rightarrow> string \<Rightarrow> real) \<Rightarrow> string list \<Rightarrow> real \<Rightarrow> real \<Rightarrow> real \<Rightarrow> real \<Rightarrow> nat
     \<Rightarrow> canvas_ctx \<Rightarrow> canvas_ctx" where
  "draw_lines M lines x y width lineHeight i ctx =
     (if i < length lines then
        (let line = lines ! i;
             lineWidth = measureText M ctx line;
             startX = x + (width - lineWidth) / 2
         in draw_lines M lines x y width lineHeight (i + 1)
              (fillText ctx line startX (y + real i * lineHeight)))
      else ctx)"
  by pat_completeness auto
termination
  by (relation "measure (\<lambda>(M, ls, x, y, w, lh, i, ctx). length ls - i)") auto

text \<open>The block after the loop, \<^verbatim>\<open>if (fontSize < 8) { ... }\<close>.\<close>

definition draw_fallback ::
  "(int \<Rightarrow> string \<Rightarrow> real) \<Rightarrow> string \<Rightarrow> real \<Rightarrow> real \<Rightarrow> real \<Rightarrow> real \<Rightarrow> canvas_ctx
     \<Rightarrow> canvas_ctx" where
  "draw_fallback M text x y width height ctx =
     (let finalFontSize = 8;
          ctx1 = ctx\<lparr>font := finalFontSize\<rparr>;
          lineHeight = real_of_int finalFontSize * 1.2;
          lines = getWrappedLines (measureText M ctx1) text (width - 4);
          ctx2 = ctx1\<lparr>textBaseline := ''top''\<rparr>;
          ctx3 = ctx2\<lparr>fillStyle := ''white''\<rparr>;
          ctx4 = clip (rect (beginPath (save ctx3)) x y width height);
          ctx5 = draw_lines M lines x y width lineHeight 0 ctx4
      in restore ctx5)"

text \<open>The \<^verbatim>\<open>while (fontSize >= 8)\<close> loop. The \<^verbatim>\<open>return\<close> of the accepting branch
  leaves the function, so the code after the loop is reached only when the loop
  condition fails; it is the last branch here. \<^verbatim>\<open>startY\<close> is computed as in the source
  and, as in the source, not used by the drawing. Arithmetic is exact here, the
  decrement included, so \<^verbatim>\<open>fontSize - 7\<close> is positive in the loop and falls by one in
  each round; the loop with the rounded decrement is \<^verbatim>\<open>fit_loop_double\<close> below.\<close>

function fit_loop ::
  "(int \<Rightarrow> string \<Rightarrow> real) \<Rightarrow> string \<Rightarrow> real \<Rightarrow> real \<Rightarrow> real \<Rightarrow> real \<Rightarrow> int
     \<Rightarrow> canvas_ctx \<Rightarrow> canvas_ctx" where
  "fit_loop M text x y width height fontSize ctx =
     (if fontSize \<ge> 8 then
        (let ctx1 = ctx\<lparr>font := fontSize\<rparr>;
             lineHeight = real_of_int fontSize * 1.2;
             lines = getWrappedLines (measureText M ctx1) text (width - 4);
             textHeight = real (length lines) * lineHeight
         in if textHeight \<le> height then
              (let ctx2 = ctx1\<lparr>textBaseline := ''top''\<rparr>;
                   ctx3 = ctx2\<lparr>fillStyle := ''white''\<rparr>;
                   startY = y + (height - textHeight) / 2
               in draw_lines M lines x y width lineHeight 0 ctx3)
            else fit_loop M text x y width height (fontSize - 1) ctx1)
      else if fontSize < 8 then draw_fallback M text x y width height ctx
      else ctx)"
  by pat_completeness auto
termination
  by (relation "measure (\<lambda>(M, t, x, y, w, h, fontSize, ctx). nat (fontSize - 7))") auto

definition drawTextAndFit ::
  "(int \<Rightarrow> string \<Rightarrow> real) \<Rightarrow> canvas_ctx \<Rightarrow> string \<Rightarrow> real \<Rightarrow> real \<Rightarrow> real \<Rightarrow> real
     \<Rightarrow> canvas_ctx" where
  "drawTextAndFit M ctx text x y width height =
     fit_loop M text x y width height \<lfloor>height / 2\<rfloor> ctx"

text \<open>The acceptance test of the loop, \<^verbatim>\<open>textHeight <= height\<close>, at a candidate size.\<close>

definition fits :: "(int \<Rightarrow> string \<Rightarrow> real) \<Rightarrow> string \<Rightarrow> real \<Rightarrow> real \<Rightarrow> int \<Rightarrow> bool" where
  "fits M text width height fontSize \<longleftrightarrow>
     real (length (getWrappedLines (M fontSize) text (width - 4)))
       * (real_of_int fontSize * 1.2) \<le> height"

text \<open>The \<^verbatim>\<open>fillText\<close> calls of \<^const>\<open>draw_lines\<close> at a font size, with the fill
  style and baseline both branches set before drawing.\<close>

definition line_ops ::
  "(int \<Rightarrow> string \<Rightarrow> real) \<Rightarrow> string list \<Rightarrow> real \<Rightarrow> real \<Rightarrow> real \<Rightarrow> int \<Rightarrow> canvas_op list" where
  "line_ops M lines x y width fontSize =
     map (\<lambda>i. FillText (lines ! i) (x + (width - M fontSize (lines ! i)) / 2)
                (y + real i * (real_of_int fontSize * 1.2)) fontSize ''white'' ''top'')
       [0..<length lines]"

subsection \<open>Double arithmetic\<close>

text \<open>A JavaScript number is an IEEE-754 binary64 value, and every arithmetic operation
  returns the exact result rounded to the nearest such value, ties to the even
  significand. The functions of the previous subsection compute with exact reals; the
  functions below round as the code does. They are meant for finite arguments that are
  themselves binary64 values. A result of magnitude \<open>2 ^ 1024\<close> or more stands for the
  infinity of its sign, which is what the rounding of an overflowing operation gives.\<close>

text \<open>Rounding to the nearest integer, ties to the even one.\<close>

definition round_half_even :: "real \<Rightarrow> int" where
  "round_half_even v =
     (let n = \<lfloor>v\<rfloor>; d = v - of_int n
      in if d < 1 / 2 then n else if 1 / 2 < d then n + 1
         else if even n then n else n + 1)"

text \<open>The binary exponent \<open>e\<close> of a non-negative real \<open>a\<close>, \<open>2 ^ e \<le> a < 2 ^ (e + 1)\<close>, kept
  within the exponents of binary64: at most 1023, and at least \<open>-1022\<close>, the exponent of
  the subnormal numbers. It is found by counting up from 0 or down from \<open>-1\<close>.\<close>

primrec binade_up :: "nat \<Rightarrow> real \<Rightarrow> int \<Rightarrow> int" where
  "binade_up 0 a e = e"
| "binade_up (Suc n) a e = (if a < 2 powi (e + 1) then e else binade_up n a (e + 1))"

primrec binade_down :: "nat \<Rightarrow> real \<Rightarrow> int \<Rightarrow> int" where
  "binade_down 0 a e = e"
| "binade_down (Suc n) a e = (if 2 powi e \<le> a then e else binade_down n a (e - 1))"

definition binade :: "real \<Rightarrow> int" where
  "binade a = (if 1 \<le> a then binade_up 1023 a 0 else binade_down 1021 a (- 1))"

text \<open>Rounding to binary64: zero is a value; around any other \<open>v\<close> the spacing of the
  values is \<open>2 ^ (e - 52)\<close>, and \<open>v\<close> goes to the nearest multiple of it.\<close>

definition round_double :: "real \<Rightarrow> real" where
  "round_double v =
     (if v = 0 then 0
      else (let u = 2 powi (binade \<bar>v\<bar> - 52)
            in real_of_int (round_half_even (v / u)) * u))"

text \<open>The four operators on numbers.\<close>

definition js_add :: "real \<Rightarrow> real \<Rightarrow> real" where
  "js_add a b = round_double (a + b)"

definition js_sub :: "real \<Rightarrow> real \<Rightarrow> real" where
  "js_sub a b = round_double (a - b)"

definition js_mul :: "real \<Rightarrow> real \<Rightarrow> real" where
  "js_mul a b = round_double (a * b)"

definition js_div :: "real \<Rightarrow> real \<Rightarrow> real" where
  "js_div a b = round_double (a / b)"

subsection \<open>Text fitting in double arithmetic\<close>

text \<open>\<^verbatim>\<open>drawTextAndFit\<close> once more, line by line as before, with every operation on
  numbers rounded and the literal \<^verbatim>\<open>1.2\<close> the binary64 value nearest to it. \<^verbatim>\<open>fontSize\<close>
  holds an integer at all times (\<^verbatim>\<open>Math.floor\<close> returns one, and the rounded difference
  of an integer and 1 is one), so it stays an \<^typ>\<open>int\<close>; \<^verbatim>\<open>fontSize -= 1\<close> is the rounded
  difference.\<close>

function draw_lines_double ::
  "(int \<Rightarrow> string \<Rightarrow> real) \<Rightarrow> string list \<Rightarrow> real \<Rightarrow> real \<Rightarrow> real \<Rightarrow> real \<Rightarrow> nat
     \<Rightarrow> canvas_ctx \<Rightarrow> canvas_ctx" where
  "draw_lines_double M lines x y width lineHeight i ctx =
     (if i < length lines then
        (let line = lines ! i;
             lineWidth = measureText M ctx line;
             startX = js_add x (js_div (js_sub width lineWidth) 2)
         in draw_lines_double M lines x y width lineHeight (i + 1)
              (fillText ctx line startX (js_add y (js_mul (real i) lineHeight))))
      else ctx)"
  by pat_completeness auto
termination
  by (relation "measure (\<lambda>(M, ls, x, y, w, lh, i, ctx). length ls - i)") auto

definition draw_fallback_double ::
  "(int \<Rightarrow> string \<Rightarrow> real) \<Rightarrow> string \<Rightarrow> real \<Rightarrow> real \<Rightarrow> real \<Rightarrow> real \<Rightarrow> canvas_ctx
     \<Rightarrow> canvas_ctx" where
  "draw_fallback_double M text x y width height ctx =
     (let finalFontSize = 8;
          ctx1 = ctx\<lparr>font := finalFontSize\<rparr>;
          lineHeight = js_mul (real_of_int finalFontSize) (round_double 1.2);
          lines = getWrappedLines (measureText M ctx1) text (js_sub width 4);
          ctx2 = ctx1\<lparr>textBaseline := ''top''\<rparr>;
          ctx3 = ctx2\<lparr>fillStyle := ''white''\<rparr>;
          ctx4 = clip (rect (beginPath (save ctx3)) x y width height);
          ctx5 = draw_lines_double M lines x y width lineHeight 0 ctx4
      in restore ctx5)"

text \<open>The \<^verbatim>\<open>while\<close> loop. Nothing bounds the number of its rounds here, so the function
  is partial: \<^const>\<open>None\<close> is the loop that never ends, \<^term>\<open>Some ctx\<close> the context the
  call leaves behind.\<close>

partial_function (option) fit_loop_double ::
  "(int \<Rightarrow> string \<Rightarrow> real) \<Rightarrow> string \<Rightarrow> real \<Rightarrow> real \<Rightarrow> real \<Rightarrow> real \<Rightarrow> int
     \<Rightarrow> canvas_ctx \<Rightarrow> canvas_ctx option" where
  "fit_loop_double M text x y width height fontSize ctx =
     (if fontSize \<ge> 8 then
        (let ctx1 = ctx\<lparr>font := fontSize\<rparr>;
             lineHeight = js_mul (real_of_int fontSize) (round_double 1.2);
             lines = getWrappedLines (measureText M ctx1) text (js_sub width 4);
             textHeight = js_mul (real (length lines)) lineHeight
         in if textHeight \<le> height then
              (let ctx2 = ctx1\<lparr>textBaseline := ''top''\<rparr>;
                   ctx3 = ctx2\<lparr>fillStyle := ''white''\<rparr>;
                   startY = js_add y (js_div (js_sub height textHeight) 2)
               in Some (draw_lines_double M lines x y width lineHeight 0 ctx3))
            else fit_loop_double M text x y width height
                   \<lfloor>js_sub (real_of_int fontSize) 1\<rfloor> ctx1)
      else if fontSize < 8 then Some (draw_fallback_double M text x y width height ctx)
      else Some ctx)"

definition drawTextAndFit_double ::
  "(int \<Rightarrow> string \<Rightarrow> real) \<Rightarrow> canvas_ctx \<Rightarrow> string \<Rightarrow> real \<Rightarrow> real \<Rightarrow> real \<Rightarrow> real
     \<Rightarrow> canvas_ctx option" where
  "drawTextAndFit_double M ctx text x y width height =
     fit_loop_double M text x y width height \<lfloor>js_div height 2\<rfloor> ctx"

subsection \<open>Blocks and the export loop of \<^verbatim>\<open>handleDownload\<close>\<close>

text \<open>The interfaces \<^verbatim>\<open>BoundingBox\<close> and \<^verbatim>\<open>TranslatedBlock\<close>. The fields \<^verbatim>\<open>x\<close>, \<^verbatim>\<open>y\<close>,
  \<^verbatim>\<open>width\<close> and \<^verbatim>\<open>height\<close> carry the prefix \<^verbatim>\<open>box_\<close>, so that the short names stay
  free for variables.\<close>

record BoundingBox =
  box_x :: real
  box_y :: real
  box_width :: real
  box_height :: real

record TranslatedBlock =
  originalText :: string
  translatedText :: string
  boundingBox :: BoundingBox

text \<open>The four conversions at the head of the \<^verbatim>\<open>forEach\<close> callback, as the tuple
  \<^verbatim>\<open>(x, y, width, height)\<close>, in exact arithmetic.\<close>

definition pixel_box :: "BoundingBox \<Rightarrow> real \<Rightarrow> real \<Rightarrow> real \<times> real \<times> real \<times> real" where
  "pixel_box b canvasWidth canvasHeight =
     ((box_x b / 100) * canvasWidth,
      (box_y b / 100) * canvasHeight,
      (box_width b / 100) * canvasWidth,
      (box_height b / 100) * canvasHeight)"

text \<open>The same four conversions as the code computes them, each division and each
  product rounded.\<close>

definition pixel_box_double ::
  "BoundingBox \<Rightarrow> real \<Rightarrow> real \<Rightarrow> real \<times> real \<times> real \<times> real" where
  "pixel_box_double b canvasWidth canvasHeight =
     (js_mul (js_div (box_x b) 100) canvasWidth,
      js_mul (js_div (box_y b) 100) canvasHeight,
      js_mul (js_div (box_width b) 100) canvasWidth,
      js_mul (js_div (box_height b) 100) canvasHeight)"

text \<open>The \<^verbatim>\<open>forEach\<close> callback: the early \<^verbatim>\<open>return\<close> for a box under one pixel, else the
  background fill and the fitted text. It returns when the fitting does.\<close>

definition draw_block ::
  "(int \<Rightarrow> string \<Rightarrow> real) \<Rightarrow> real \<Rightarrow> real \<Rightarrow> canvas_ctx \<Rightarrow> TranslatedBlock
     \<Rightarrow> canvas_ctx option" where
  "draw_block M canvasWidth canvasHeight ctx block =
     (case pixel_box_double (boundingBox block) canvasWidth canvasHeight of
        (x, y, width, height) \<Rightarrow>
          if width < 1 \<or> height < 1 then Some ctx
          else drawTextAndFit_double M
                 (fillRect (ctx\<lparr>fillStyle := ''#111827''\<rparr>) x y width height)
                 (translatedText block) x y width height)"

text \<open>\<^verbatim>\<open>translationBlocks.forEach\<close>: the callback on each block in array order; a call
  that never returns keeps the later blocks from being reached.\<close>

fun draw_blocks ::
  "(int \<Rightarrow> string \<Rightarrow> real) \<Rightarrow> real \<Rightarrow> real \<Rightarrow> canvas_ctx \<Rightarrow> TranslatedBlock list
     \<Rightarrow> canvas_ctx option" where
  "draw_blocks M canvasWidth canvasHeight ctx [] = Some ctx"
| "draw_blocks M canvasWidth canvasHeight ctx (block # blocks) =
     (case draw_block M canvasWidth canvasHeight ctx block of
        None \<Rightarrow> None
      | Some ctx' \<Rightarrow> draw_blocks M canvasWidth canvasHeight ctx' blocks)"

text \<open>The drawing of \<^verbatim>\<open>image.onload\<close>: \<^verbatim>\<open>ctx.drawImage(image, 0, 0)\<close> on the new context
  of a canvas of the image's natural size, then the blocks.\<close>

definition export_canvas ::
  "(int \<Rightarrow> string \<Rightarrow> real) \<Rightarrow> nat \<Rightarrow> nat \<Rightarrow> TranslatedBlock list \<Rightarrow> canvas_ctx option" where
  "export_canvas M naturalWidth naturalHeight blocks =
     draw_blocks M (real naturalWidth) (real naturalHeight) (drawImage blank_ctx 0 0) blocks"

text \<open>\<^verbatim>\<open>s.lastIndexOf(c)\<close>: the index of the last occurrence, or \<open>-1\<close>.\<close>

definition lastIndexOf :: "string \<Rightarrow> char \<Rightarrow> int" where
  "lastIndexOf s c =
     (if c \<in> set s then int (length s) - 1 - int (length (takeWhile (\<lambda>a. a \<noteq> c) (rev s)))
      else - 1)"

text \<open>\<^verbatim>\<open>s.substring(a, b)\<close>: both indices are clamped to \<open>0 .. length\<close>, and swapped
  when the first is the larger.\<close>

definition substring :: "string \<Rightarrow> int \<Rightarrow> int \<Rightarrow> string" where
  "substring s a b =
     (let a' = nat (min (int (length s)) (max 0 a));
          b' = nat (min (int (length s)) (max 0 b))
      in take (max a' b' - min a' b') (drop (min a' b') s))"

text \<open>The file name of the download link: \<^verbatim>\<open>fileName\<close> and the template string
  \<^verbatim>\<open>`${fileName}-translated.png`\<close>.\<close>

definition download_name :: "string \<Rightarrow> string" where
  "download_name name =
     (let fileName = substring name 0 (lastIndexOf name CHR ''.'')
      in fileName @ ''-translated.png'')"

subsection \<open>Popover placement: \<^verbatim>\<open>handleMouseEnter\<close>\<close>

text \<open>The style object of the popover; \<^verbatim>\<open>left\<close> and \<^verbatim>\<open>top\<close> are the numbers in front of
  the percent sign.\<close>

record popover_style =
  style_position :: string
  style_left :: real
  style_top :: real
  style_transform :: string
  style_zIndex :: nat

text \<open>The value handed to \<^verbatim>\<open>setHoveredBlock\<close>.\<close>

definition handleMouseEnter :: "TranslatedBlock \<Rightarrow> TranslatedBlock \<times> popover_style" where
  "handleMouseEnter block =
     (let bb = boundingBox block;
          popoverStyle = \<lparr>style_position = ''absolute'', style_left = box_x bb,
                          style_top = box_y bb + box_height bb,
                          style_transform = ''translateY(8px)'', style_zIndex = 20\<rparr>
      in if box_y bb + box_height bb > 70
         then (block, popoverStyle\<lparr>style_top := box_y bb,
                        style_transform := ''translateY(-100%) translateY(-8px)''\<rparr>)
         else (block, popoverStyle))"

subsection \<open>Response validation: \<^verbatim>\<open>translateImageContent\<close> and \<^verbatim>\<open>handleTranslate\<close>\<close>

text \<open>A value as \<^verbatim>\<open>JSON.parse\<close> returns it. An object is its list of entries.\<close>

datatype json =
    JNull
  | JBool bool
  | JNumber real
  | JString string
  | JArray "json list"
  | JObject "(string \<times> json) list"

text \<open>\<^verbatim>\<open>typeof v === 'object' && v !== null\<close>: an array is an object too.\<close>

fun is_object :: "json \<Rightarrow> bool" where
  "is_object (JArray _) = True"
| "is_object (JObject _) = True"
| "is_object _ = False"

text \<open>\<^verbatim>\<open>k in v\<close> for the six names the validation asks for. None of them is an index or
  \<^verbatim>\<open>length\<close>, so an array has none of them, and none is inherited from a prototype. The
  code applies the operator to objects only (the \<^verbatim>\<open>typeof\<close> test comes first).\<close>

fun js_in :: "string \<Rightarrow> json \<Rightarrow> bool" where
  "js_in k (JObject entries) = (k \<in> set (map fst entries))"
| "js_in k _ = False"

text \<open>\<^verbatim>\<open>v.k\<close>, with \<^verbatim>\<open>undefined\<close> as \<^const>\<open>None\<close>.\<close>

fun get_prop :: "json \<Rightarrow> string \<Rightarrow> json option" where
  "get_prop (JObject entries) k = map_of entries k"
| "get_prop _ k = None"

fun isArray :: "json option \<Rightarrow> bool" where
  "isArray (Some (JArray _)) = True"
| "isArray _ = False"

fun is_string :: "json option \<Rightarrow> bool" where
  "is_string (Some (JString _)) = True"
| "is_string _ = False"

fun is_object_prop :: "json option \<Rightarrow> bool" where
  "is_object_prop (Some v) = is_object v"
| "is_object_prop None = False"

text \<open>The callback of \<^verbatim>\<open>blocks.every\<close>.\<close>

definition block_ok :: "json \<Rightarrow> bool" where
  "block_ok item \<longleftrightarrow>
     is_object item \<and>
     js_in ''originalText'' item \<and>
     js_in ''translatedText'' item \<and>
     js_in ''boundingBox'' item \<and>
     is_object_prop (get_prop item ''boundingBox'') \<and>
     (case get_prop item ''boundingBox'' of
        Some bb \<Rightarrow> js_in ''x'' bb \<and> js_in ''y'' bb \<and> js_in ''width'' bb \<and> js_in ''height'' bb
      | None \<Rightarrow> False)"

text \<open>\<^verbatim>\<open>s.replace(/\\n/g, '\n')\<close>: every backslash followed by the letter n becomes a
  line feed.\<close>

fun replace_escaped_newlines :: "string \<Rightarrow> string" where
  "replace_escaped_newlines (c # d # cs) =
     (if c = CHR 0x5C \<and> d = CHR ''n'' then CHR 0x0A # replace_escaped_newlines cs
      else c # replace_escaped_newlines (d # cs))"
| "replace_escaped_newlines cs = cs"

text \<open>The two errors thrown inside the \<^verbatim>\<open>try\<close>, and the error the \<^verbatim>\<open>catch\<close> throws in
  their place (\<^verbatim>\<open>Failed to get translation from AI: \<close> followed by the message).\<close>

datatype validation_error = UnexpectedStructure | MalformedBlocks

datatype translate_error = FailedToGetTranslation validation_error

text \<open>The value returned: the blocks as they came, and the corrected string.\<close>

record TranslationResult =
  translationBlocks :: "json list"
  formattedTranslation :: string

text \<open>The \<^verbatim>\<open>try\<close> body from the parsed value on.\<close>

definition check_response :: "json \<Rightarrow> validation_error + TranslationResult" where
  "check_response parsedJson =
     (if \<not> is_object parsedJson \<or> \<not> js_in ''translationBlocks'' parsedJson
         \<or> \<not> isArray (get_prop parsedJson ''translationBlocks'')
         \<or> \<not> js_in ''formattedTranslation'' parsedJson
         \<or> \<not> is_string (get_prop parsedJson ''formattedTranslation'')
      then Inl UnexpectedStructure
      else (case (get_prop parsedJson ''translationBlocks'',
                  get_prop parsedJson ''formattedTranslation'') of
              (Some (JArray blocks), Some (JString formatted)) \<Rightarrow>
                if \<not> list_all block_ok blocks then Inl MalformedBlocks
                else Inr \<lparr>translationBlocks = blocks,
                          formattedTranslation = replace_escaped_newlines formatted\<rparr>
            | _ \<Rightarrow> Inl UnexpectedStructure))"

text \<open>\<^verbatim>\<open>translateImageContent\<close> from the parsed value on: the \<^verbatim>\<open>catch\<close> wraps the error.\<close>

definition translateImageContent :: "json \<Rightarrow> translate_error + TranslationResult" where
  "translateImageContent parsedJson =
     (case check_response parsedJson of
        Inl e \<Rightarrow> Inl (FailedToGetTranslation e)
      | Inr result \<Rightarrow> Inr result)"

text \<open>The state of the application that \<^verbatim>\<open>handleTranslate\<close> reads and writes.\<close>

datatype app_error = PleaseSelectFile | TranslationError translate_error

record app_state =
  "file" :: "string option"
  fileDataURL :: "string option"
  translationResult :: "TranslationResult option"
  isLoading :: bool
  error :: "app_error option"

text \<open>\<^verbatim>\<open>handleTranslate\<close>, given the value the model's answer parses to: the guard, the
  three state updates before the call, then the \<^verbatim>\<open>try\<close>, \<^verbatim>\<open>catch\<close> and \<^verbatim>\<open>finally\<close>.\<close>

definition handleTranslate :: "json \<Rightarrow> app_state \<Rightarrow> app_state" where
  "handleTranslate parsedJson st =
     (if file st = None \<or> fileDataURL st = None \<or> fileDataURL st = Some []
      then st\<lparr>error := Some PleaseSelectFile\<rparr>
      else (let st1 = st\<lparr>isLoading := True, error := None, translationResult := None\<rparr>
            in case translateImageContent parsedJson of
                 Inr result \<Rightarrow> st1\<lparr>translationResult := Some result, isLoading := False\<rparr>
               | Inl e \<Rightarrow> st1\<lparr>error := Some (TranslationError e), isLoading := False\<rparr>))"

text \<open>The validation contract in the specification's words: the response is an object
  with \<^verbatim>\<open>translationBlocks\<close> an array and \<^verbatim>\<open>formattedTranslation\<close> a string, and every
  block has \<^verbatim>\<open>originalText\<close>, \<^verbatim>\<open>translatedText\<close> and a \<^verbatim>\<open>boundingBox\<close> with all four
  numeric fields.\<close>

fun numeric_prop :: "json option \<Rightarrow> bool" where
  "numeric_prop (Some (JNumber _)) = True"
| "numeric_prop _ = False"

fun spec_box_ok :: "json option \<Rightarrow> bool" where
  "spec_box_ok (Some (JObject bb)) =
     (numeric_prop (map_of bb ''x'') \<and> numeric_prop (map_of bb ''y'')
      \<and> numeric_prop (map_of bb ''width'') \<and> numeric_prop (map_of bb ''height''))"
| "spec_box_ok _ = False"

fun spec_block_ok :: "json \<Rightarrow> bool" where
  "spec_block_ok (JObject b) =
     (map_of b ''originalText'' \<noteq> None \<and> map_of b ''translatedText'' \<noteq> None
      \<and> spec_box_ok (map_of b ''boundingBox''))"
| "spec_block_ok _ = False"

fun spec_response_ok :: "json \<Rightarrow> bool" where
  "spec_response_ok (JObject r) =
     (case (map_of r ''translationBlocks'', map_of r ''formattedTranslation'') of
        (Some (JArray blocks), Some (JString _)) \<Rightarrow> list_all spec_block_ok blocks
      | _ \<Rightarrow> False)"
| "spec_response_ok _ = False"

text \<open>The same contract with the four fields only required to be present.\<close>

fun present_box_ok :: "json option \<Rightarrow> bool" where
  "present_box_ok (Some (JObject bb)) =
     (map_of bb ''x'' \<noteq> None \<and> map_of bb ''y'' \<noteq> None
      \<and> map_of bb ''width'' \<noteq> None \<and> map_of bb ''height'' \<noteq> None)"
| "present_box_ok _ = False"

fun present_block_ok :: "json \<Rightarrow> bool" where
  "present_block_ok (JObject b) =
     (map_of b ''originalText'' \<noteq> None \<and> map_of b ''translatedText'' \<noteq> None
      \<and> present_box_ok (map_of b ''boundingBox''))"
| "present_block_ok _ = False"

fun present_response_ok :: "json \<Rightarrow> bool" where
  "present_response_ok (JObject r) =
     (case (map_of r ''translationBlocks'', map_of r ''formattedTranslation'') of
        (Some (JArray blocks), Some (JString _)) \<Rightarrow> list_all present_block_ok blocks
      | _ \<Rightarrow> False)"
| "present_response_ok _ = False"

subsection \<open>Sample measuring functions\<close>

text \<open>Stand-ins for the browser's text measurement at concrete inputs: one unit per
  character; half the font size per character; and a function under which a longer
  string can measure less than a part of it.\<close>

definition char_count_measure :: "string \<Rightarrow> real" where
  "char_count_measure s = real (length s)"

definition half_em_measure :: "int \<Rightarrow> string \<Rightarrow> real" where
  "half_em_measure px s = real_of_int px * real (length s) / 2"

definition stretch_measure :: "string \<Rightarrow> real" where
  "stretch_measure s = (if s = ''aa'' then 10 else 0)"

section \<open>Properties of the embedding\<close>

subsection \<open>The loop of the word wrap is the greedy fold\<close>

declare wrap_loop.simps [simp del] draw_lines.simps [simp del] fit_loop.simps [simp del]

lemma greedy_step_apply:
  "greedy_step m mw (out, line) word =
     (if line = [] then (out, word)
      else if m (line @ '' '' @ word) < mw then (out, line @ '' '' @ word)
      else (out @ [line], word))"
  by (simp add: greedy_step_def)

lemma wrap_loop_fold:
  "wrap_loop m mw words i lines cur = foldl (greedy_step m mw) (lines, cur) (drop i words)"
proof (induction m mw words i lines cur rule: wrap_loop.induct)
  case (1 m mw words i lines cur)
  show ?case
  proof (cases "i < length words")
    case False
    then show ?thesis by (simp add: wrap_loop.simps [of m mw words i])
  next
    case True
    then have d: "drop i words = words ! i # drop (Suc i) words"
      by (simp add: Cons_nth_drop_Suc)
    show ?thesis
      using True "1.IH"
      by (subst wrap_loop.simps) (simp add: d greedy_step_apply Let_def)
  qed
qed

lemma wrap_words_greedy: "wrap_words m mw words = greedy_wrap m mw words"
  by (simp add: wrap_words_def greedy_wrap_def wrap_loop_fold)

subsection \<open>Splitting and joining\<close>

lemma split_on_nonempty: "split_on c t \<noteq> []"
  by (induction t) (auto split: list.splits)

lemma join_space_Cons: "ws \<noteq> [] \<Longrightarrow> join_space (w # ws) = w @ '' '' @ join_space ws"
  by (cases ws) auto

lemma join_split: "join_space (split_on CHR '' '' t) = t"
proof (induction t)
  case Nil
  show ?case by simp
next
  case (Cons c cs)
  obtain w ws where s: "split_on CHR '' '' cs = w # ws"
    using split_on_nonempty [of "CHR '' ''" cs] by (cases "split_on CHR '' '' cs") auto
  show ?case
  proof (cases "c = CHR '' ''")
    case True
    then show ?thesis using Cons s by (simp add: join_space_Cons split_on_nonempty)
  next
    case False
    then show ?thesis using Cons s by (cases ws) auto
  qed
qed

lemma split_no_sep: "w \<in> set (split_on c t) \<Longrightarrow> c \<notin> set w"
proof (induction t arbitrary: w)
  case Nil
  then show ?case by simp
next
  case (Cons a t)
  then show ?case by (auto split: if_splits list.splits)
qed

lemma split_word: "c \<notin> set w \<Longrightarrow> split_on c w = [w]"
  by (induction w) auto

lemma split_append_sep:
  "c \<notin> set w \<Longrightarrow> split_on c (w @ c # t) = w # split_on c t"
  by (induction w) auto

lemma split_join:
  "ws \<noteq> [] \<Longrightarrow> \<forall>w\<in>set ws. CHR '' '' \<notin> set w \<Longrightarrow>
     split_on CHR '' '' (join_space ws) = ws"
proof (induction ws rule: join_space.induct)
  case 1
  then show ?case by simp
next
  case (2 w)
  then show ?case by (simp add: split_word)
next
  case (3 w v ws)
  then show ?case by (simp add: split_append_sep)
qed

lemma join_space_concat:
  "join_space (x # r) = x @ concat (map (\<lambda>w. CHR '' '' # w) r)"
  by (induction r arbitrary: x) auto

lemma join_space_snoc:
  "g \<noteq> [] \<Longrightarrow> join_space (g @ [w]) = join_space g @ '' '' @ w"
  by (cases g) (auto simp: join_space_concat)

lemma join_space_empty_words:
  "join_space g = [] \<Longrightarrow> filter (\<lambda>w. w \<noteq> []) g = []"
  by (cases g) (auto simp: join_space_concat split: list.splits)

subsection \<open>Lines are groups of whole words\<close>

lemma fold_groups:
  assumes "out = map join_space gs" and "\<forall>g\<in>set gs. g \<noteq> []"
    and "line = join_space g"
    and "filter (\<lambda>w. w \<noteq> []) (concat gs @ g) = filter (\<lambda>w. w \<noteq> []) seen"
  shows "\<exists>gs' g'. fst (foldl (greedy_step m mw) (out, line) rest) = map join_space gs'
           \<and> (\<forall>g\<in>set gs'. g \<noteq> [])
           \<and> snd (foldl (greedy_step m mw) (out, line) rest) = join_space g'
           \<and> filter (\<lambda>w. w \<noteq> []) (concat gs' @ g')
               = filter (\<lambda>w. w \<noteq> []) (seen @ rest)"
  using assms
proof (induction rest arbitrary: out line gs g seen)
  case Nil
  then show ?case by auto
next
  case (Cons v rest)
  show ?case
  proof (cases "line = []")
    case True
    with Cons.prems have e: "filter (\<lambda>w. w \<noteq> []) g = []"
      by (simp add: join_space_empty_words)
    have "\<exists>gs' g'. fst (foldl (greedy_step m mw) (out, v) rest) = map join_space gs'
           \<and> (\<forall>g\<in>set gs'. g \<noteq> [])
           \<and> snd (foldl (greedy_step m mw) (out, v) rest) = join_space g'
           \<and> filter (\<lambda>w. w \<noteq> []) (concat gs' @ g')
               = filter (\<lambda>w. w \<noteq> []) ((seen @ [v]) @ rest)"
      using Cons.prems e by (intro Cons.IH [where gs = gs and g = "[v]"]) auto
    then show ?thesis using True by (simp add: greedy_step_apply)
  next
    case False
    with Cons.prems have gne: "g \<noteq> []" by auto
    show ?thesis
    proof (cases "m (line @ '' '' @ v) < mw")
      case True
      have "\<exists>gs' g'. fst (foldl (greedy_step m mw) (out, line @ '' '' @ v) rest)
               = map join_space gs'
           \<and> (\<forall>g\<in>set gs'. g \<noteq> [])
           \<and> snd (foldl (greedy_step m mw) (out, line @ '' '' @ v) rest) = join_space g'
           \<and> filter (\<lambda>w. w \<noteq> []) (concat gs' @ g')
               = filter (\<lambda>w. w \<noteq> []) ((seen @ [v]) @ rest)"
        using Cons.prems gne
        by (intro Cons.IH [where gs = gs and g = "g @ [v]"]) (auto simp: join_space_snoc)
      then show ?thesis using True False by (simp add: greedy_step_apply)
    next
      case nofit: False
      have "\<exists>gs' g'. fst (foldl (greedy_step m mw) (out @ [line], v) rest)
               = map join_space gs'
           \<and> (\<forall>g\<in>set gs'. g \<noteq> [])
           \<and> snd (foldl (greedy_step m mw) (out @ [line], v) rest) = join_space g'
           \<and> filter (\<lambda>w. w \<noteq> []) (concat gs' @ g')
               = filter (\<lambda>w. w \<noteq> []) ((seen @ [v]) @ rest)"
        using Cons.prems gne
        by (intro Cons.IH [where gs = "gs @ [g]" and g = "[v]"]) auto
      then show ?thesis using nofit False by (simp add: greedy_step_apply)
    qed
  qed
qed

lemma greedy_wrap_groups:
  "\<exists>gs. greedy_wrap m mw words = map join_space gs \<and> (\<forall>g\<in>set gs. g \<noteq> [])
        \<and> filter (\<lambda>w. w \<noteq> []) (concat gs) = filter (\<lambda>w. w \<noteq> []) words"
proof -
  obtain gs g where r:
    "fst (foldl (greedy_step m mw) ([], []) words) = map join_space gs"
    "\<forall>g\<in>set gs. g \<noteq> []"
    "snd (foldl (greedy_step m mw) ([], []) words) = join_space g"
    "filter (\<lambda>w. w \<noteq> []) (concat gs @ g) = filter (\<lambda>w. w \<noteq> []) ([] @ words)"
    using fold_groups [where gs = "[]" and g = "[]" and out = "[]" and line = "[]"
        and seen = "[]" and m = m and mw = mw and rest = words]
    by auto
  show ?thesis
  proof (cases "join_space g = []")
    case True
    then have "filter (\<lambda>w. w \<noteq> []) g = []" by (rule join_space_empty_words)
    with r True show ?thesis
      by (intro exI [of _ gs]) (simp add: greedy_wrap_def case_prod_beta)
  next
    case False
    then have "g \<noteq> []" by auto
    with r False show ?thesis
      by (intro exI [of _ "gs @ [g]"]) (simp add: greedy_wrap_def case_prod_beta)
  qed
qed

subsection \<open>A wide word between two wraps\<close>

lemma fold_out_prefix:
  "foldl (greedy_step m mw) (pre @ out, line) rest =
     (pre @ fst (foldl (greedy_step m mw) (out, line) rest),
      snd (foldl (greedy_step m mw) (out, line) rest))"
  by (induction rest arbitrary: out line) (auto simp: greedy_step_apply)

lemma greedy_wrap_wide_word:
  assumes left: "\<forall>c v. m c \<le> m (c @ '' '' @ v)"
    and right: "\<forall>c v. m v \<le> m (c @ '' '' @ v)"
    and w: "w \<noteq> []" and wide: "mw \<le> m w"
  shows "greedy_wrap m mw (pre @ w # post) =
           greedy_wrap m mw pre @ [w] @ greedy_wrap m mw post"
proof -
  obtain out line where p: "foldl (greedy_step m mw) ([], []) pre = (out, line)"
    by (cases "foldl (greedy_step m mw) ([], []) pre") auto
  have nofit_before: "line \<noteq> [] \<Longrightarrow> \<not> m (line @ '' '' @ w) < mw"
    using right wide by (meson le_less_trans less_irrefl)
  have after_w: "greedy_step m mw (out, line) w = (greedy_wrap m mw pre, w)"
    using nofit_before by (auto simp: greedy_step_apply greedy_wrap_def p)
  have tail: "(case foldl (greedy_step m mw) (acc, w) post of
                 (out, line) \<Rightarrow> if line \<noteq> [] then out @ [line] else out)
              = acc @ [w] @ greedy_wrap m mw post" for acc
  proof (cases post)
    case Nil
    then show ?thesis using w by (simp add: greedy_wrap_def)
  next
    case (Cons v rest)
    have "\<not> m (w @ '' '' @ v) < mw"
      using left wide by (meson le_less_trans less_irrefl)
    then have s: "greedy_step m mw (acc, w) v = (acc @ [w], v)"
      using w by (simp add: greedy_step_apply)
    have f: "foldl (greedy_step m mw) (acc @ [w], v) rest =
               (acc @ [w] @ fst (foldl (greedy_step m mw) ([], v) rest),
                snd (foldl (greedy_step m mw) ([], v) rest))"
      using fold_out_prefix [of m mw "acc @ [w]" "[]" v rest] by simp
    have g: "greedy_step m mw ([], []) v = ([], v)"
      by (simp add: greedy_step_apply)
    show ?thesis
      by (simp add: Cons greedy_wrap_def s f g case_prod_beta)
  qed
  show ?thesis
    using tail [of "greedy_wrap m mw pre"] after_w
    by (simp add: greedy_wrap_def [of m mw "pre @ w # post"] p)
qed

subsection \<open>The joined lines are the joined words\<close>

lemma fold_nonempty_words:
  assumes "\<forall>w\<in>set rest. w \<noteq> []" and "line \<noteq> []"
  shows "snd (foldl (greedy_step m mw) (out, line) rest) \<noteq> []
         \<and> join_space (fst (foldl (greedy_step m mw) (out, line) rest)
                        @ [snd (foldl (greedy_step m mw) (out, line) rest)])
             = join_space (out @ [line]) @ concat (map (\<lambda>w. CHR '' '' # w) rest)"
  using assms
proof (induction rest arbitrary: out line)
  case Nil
  then show ?case by simp
next
  case (Cons v rest)
  have grow: "join_space (out @ [line @ '' '' @ v]) = join_space (out @ [line]) @ '' '' @ v"
    by (cases out) (simp_all add: join_space_concat)
  have break: "join_space ((out @ [line]) @ [v]) = join_space (out @ [line]) @ '' '' @ v"
    by (rule join_space_snoc) simp
  show ?case
  proof (cases "m (line @ '' '' @ v) < mw")
    case True
    then show ?thesis
      using Cons.prems Cons.IH [of "line @ '' '' @ v" out] grow
      by (simp add: greedy_step_apply)
  next
    case False
    then show ?thesis
      using Cons.prems Cons.IH [of v "out @ [line]"] break
      by (simp add: greedy_step_apply)
  qed
qed

lemma greedy_wrap_content:
  assumes "ws \<noteq> []" and "\<forall>w\<in>set ws. w \<noteq> []"
  shows "join_space (greedy_wrap m mw ws) = join_space ws"
proof -
  obtain w rest where ws: "ws = w # rest" using assms(1) by (cases ws) auto
  have "snd (foldl (greedy_step m mw) ([], w) rest) \<noteq> []
        \<and> join_space (fst (foldl (greedy_step m mw) ([], w) rest)
                        @ [snd (foldl (greedy_step m mw) ([], w) rest)])
            = join_space ([] @ [w]) @ concat (map (\<lambda>w. CHR '' '' # w) rest)"
    using assms ws by (intro fold_nonempty_words) auto
  then show ?thesis
    by (simp add: ws greedy_wrap_def greedy_step_apply case_prod_beta join_space_concat)
qed

subsection \<open>The fitting loop\<close>

lemma measureText_font: "measureText M ctx = M (font ctx)"
  by (rule ext) (simp add: measureText_def)

lemma draw_lines_result:
  "draw_lines M lines x y w lh i ctx =
     ctx\<lparr>ops := ops ctx @
       map (\<lambda>j. FillText (lines ! j) (x + (w - M (font ctx) (lines ! j)) / 2)
                  (y + real j * lh) (font ctx) (fillStyle ctx) (textBaseline ctx))
         [i..<length lines]\<rparr>"
proof (induction M lines x y w lh i ctx rule: draw_lines.induct)
  case (1 M lines x y w lh i ctx)
  show ?case
  proof (cases "i < length lines")
    case False
    then show ?thesis by (simp add: draw_lines.simps [of M lines x y w lh i])
  next
    case True
    then have u: "[i..<length lines] = i # [Suc i..<length lines]"
      by (simp add: upt_conv_Cons)
    show ?thesis
      using True "1.IH"
      by (subst draw_lines.simps) (simp add: u Let_def fillText_def measureText_def)
  qed
qed


lemma fit_loop_unfold:
  "fit_loop M text x y w h f ctx =
     (if 8 \<le> f then
        (if fits M text w h f
         then ctx\<lparr>font := f, textBaseline := ''top'', fillStyle := ''white'',
                  ops := ops ctx @ line_ops M (getWrappedLines (M f) text (w - 4)) x y w f\<rparr>
         else fit_loop M text x y w h (f - 1) (ctx\<lparr>font := f\<rparr>))
      else draw_fallback M text x y w h ctx)"
  by (subst fit_loop.simps)
     (simp add: Let_def fits_def draw_lines_result measureText_font line_ops_def)





declare draw_lines_double.simps [simp del]

subsection \<open>Evaluating the rounding\<close>

lemma binade_up_numeral:
  "binade_up (numeral k) a e =
     (if a < 2 powi (e + 1) then e else binade_up (pred_numeral k) a (e + 1))"
  by (simp add: numeral_eq_Suc)

lemma binade_down_numeral:
  "binade_down (numeral k) a e =
     (if 2 powi e \<le> a then e else binade_down (pred_numeral k) a (e - 1))"
  by (simp add: numeral_eq_Suc)

lemmas double_eval = round_double_def binade_def binade_up_numeral binade_down_numeral
  round_half_even_def Let_def js_add_def js_sub_def js_mul_def js_div_def

text \<open>Some values of the rounding: the binary64 values of the literals \<^verbatim>\<open>0.1\<close> and
  \<^verbatim>\<open>1.2\<close>, the two ties just above \<open>2 ^ 53\<close>, and the comparison
  \<^verbatim>\<open>3 * (14 * 1.2) <= 50.4\<close>, which is false in binary64 and true of the exact values.\<close>

lemma round_double_examples:
  "round_double 0.1 = 3602879701896397 / 36028797018963968"
  "round_double 1.2 = 5404319552844595 / 4503599627370496"
  "round_double (2 ^ 53 + 1) = 2 ^ 53"
  "round_double (2 ^ 53 + 3) = 2 ^ 53 + 4"
  "round_double (3 * round_double (14 * round_double 1.2)) > round_double 50.4"
  by (simp_all add: double_eval)

text \<open>On the boxes of the examples below that hold one short line, the two readings of
  the fitting give the same context.\<close>

lemma readings_agree_on_small_boxes:
  "drawTextAndFit_double half_em_measure blank_ctx ''Hi'' 0 0 100 100
     = Some (drawTextAndFit half_em_measure blank_ctx ''Hi'' 0 0 100 100)"
  "drawTextAndFit_double half_em_measure blank_ctx ''Hi'' 0 0 100 40
     = Some (drawTextAndFit half_em_measure blank_ctx ''Hi'' 0 0 100 40)"
  by (simp_all add: drawTextAndFit_double_def fit_loop_double.simps draw_lines_double.simps
      drawTextAndFit_def fit_loop_unfold fits_def line_ops_def
      fillText_def measureText_def blank_ctx_def double_eval half_em_measure_def
      getWrappedLines_def wrap_words_def wrap_loop.simps)

subsection \<open>A rejected candidate that the decrement leaves unchanged\<close>

lemma fit_loop_double_absorbed:
  assumes big: "8 \<le> f"
    and rejected: "\<not> js_mul (real (length (getWrappedLines (M f) t (js_sub w 4))))
                      (js_mul (real_of_int f) (round_double 1.2)) \<le> h"
    and absorbed: "\<lfloor>js_sub (real_of_int f) 1\<rfloor> = f"
  shows "fit_loop_double M t x y w h f ctx = None"
proof (cases "fit_loop_double M t x y w h f ctx")
  case None
  then show ?thesis .
next
  case (Some r)
  note rule = fit_loop_double.raw_induct
    [where P = "\<lambda>M' t' x' y' w' h' f' ctx' r'.
       \<not> (M' = M \<and> t' = t \<and> w' = w \<and> h' = h \<and> f' = f)"
      and xa = "(((((((M, t), x), y), w), h), f), ctx)" and ya = r]
  have "(case (((((((M, t), x), y), w), h), f), ctx) of
          (a, ctx') \<Rightarrow> (case a of (a, f') \<Rightarrow> (case a of (a, h') \<Rightarrow> (case a of (a, w') \<Rightarrow>
            (case a of (a, y') \<Rightarrow> (case a of (a, x') \<Rightarrow> (case a of (M', t') \<Rightarrow>
              \<lambda>x' y' w' h' f' ctx' r'.
                \<not> (M' = M \<and> t' = t \<and> w' = w \<and> h' = h \<and> f' = f)) x') y') w') h') f') ctx') r"
  proof (rule rule)
    fix loop :: "(int \<Rightarrow> string \<Rightarrow> real) \<Rightarrow> string \<Rightarrow> real \<Rightarrow> real \<Rightarrow> real \<Rightarrow> real \<Rightarrow> int
       \<Rightarrow> canvas_ctx \<Rightarrow> canvas_ctx option"
    fix M' t' x' y' w' h' f' ctx' r'
    assume IH: "\<And>M' t' x' y' w' h' f' ctx' r'. loop M' t' x' y' w' h' f' ctx' = Some r' \<Longrightarrow>
         \<not> (M' = M \<and> t' = t \<and> w' = w \<and> h' = h \<and> f' = f)"
    assume body: "(if 8 \<le> f' then
          (let ctx1 = ctx'\<lparr>font := f'\<rparr>;
               lineHeight = js_mul (real_of_int f') (round_double 1.2);
               lines = getWrappedLines (measureText M' ctx1) t' (js_sub w' 4);
               textHeight = js_mul (real (length lines)) lineHeight
           in if textHeight \<le> h' then
                (let ctx2 = ctx1\<lparr>textBaseline := ''top''\<rparr>;
                     ctx3 = ctx2\<lparr>fillStyle := ''white''\<rparr>;
                     startY = js_add y' (js_div (js_sub h' textHeight) 2)
                 in Some (draw_lines_double M' lines x' y' w' lineHeight 0 ctx3))
              else loop M' t' x' y' w' h' \<lfloor>js_sub (real_of_int f') 1\<rfloor> ctx1)
        else if f' < 8 then Some (draw_fallback_double M' t' x' y' w' h' ctx')
        else Some ctx') = Some r'"
    show "\<not> (M' = M \<and> t' = t \<and> w' = w \<and> h' = h \<and> f' = f)"
    proof
      assume c: "M' = M \<and> t' = t \<and> w' = w \<and> h' = h \<and> f' = f"
      have "loop M' t' x' y' w' h' f' (ctx'\<lparr>font := f'\<rparr>) = Some r'"
        using body c big rejected absorbed
        by (simp add: Let_def measureText_font)
      then show False using IH c by blast
    qed
  next
    show "(case (((((((M, t), x), y), w), h), f), ctx) of
            (a, b) \<Rightarrow> (case a of (a, b) \<Rightarrow> (case a of (a, b) \<Rightarrow> (case a of (a, b) \<Rightarrow>
              (case a of (a, b) \<Rightarrow> (case a of (a, b) \<Rightarrow> (case a of (a, b) \<Rightarrow>
                fit_loop_double a b) b) b) b) b) b) b) = Some r"
      using Some by simp
  qed
  then show ?thesis by simp
qed

subsection \<open>The validation against the presence contract\<close>

lemma block_ok_present: "block_ok item \<longleftrightarrow> present_block_ok item"
proof (cases item)
  case (JObject entries)
  show ?thesis
  proof (cases "map_of entries ''boundingBox''")
    case None
    then have "''boundingBox'' \<notin> fst ` set entries"
      by (simp add: map_of_eq_None_iff)
    then show ?thesis using None by (simp add: block_ok_def JObject)
  next
    case (Some bb)
    then have k: "''boundingBox'' \<in> fst ` set entries"
      by (metis map_of_eq_None_iff option.distinct(1))
    have o: "''originalText'' \<in> fst ` set entries \<longleftrightarrow> map_of entries ''originalText'' \<noteq> None"
      by (simp add: map_of_eq_None_iff)
    have t: "''translatedText'' \<in> fst ` set entries
               \<longleftrightarrow> map_of entries ''translatedText'' \<noteq> None"
      by (simp add: map_of_eq_None_iff)
    show ?thesis
    proof (cases bb)
      case (JObject fields)
      have f: "\<And>n. n \<in> fst ` set fields \<longleftrightarrow> map_of fields n \<noteq> None"
        by (simp add: map_of_eq_None_iff)
      show ?thesis
        using Some k by (simp add: block_ok_def \<open>item = JObject entries\<close> JObject o t f)
    qed (use Some k in \<open>simp_all add: block_ok_def \<open>item = JObject entries\<close>\<close>)
  qed
qed (simp_all add: block_ok_def)

lemma list_all_block_ok: "list_all block_ok blocks \<longleftrightarrow> list_all present_block_ok blocks"
  by (induction blocks) (simp_all add: block_ok_present)

lemma check_response_cases:
  "check_response j =
     (if present_response_ok j
      then (case j of
              JObject r \<Rightarrow>
                (case (map_of r ''translationBlocks'', map_of r ''formattedTranslation'') of
                   (Some (JArray blocks), Some (JString formatted)) \<Rightarrow>
                     Inr \<lparr>translationBlocks = blocks,
                          formattedTranslation = replace_escaped_newlines formatted\<rparr>
                 | _ \<Rightarrow> Inl UnexpectedStructure)
            | _ \<Rightarrow> Inl UnexpectedStructure)
      else if (case j of
                 JObject r \<Rightarrow> isArray (map_of r ''translationBlocks'')
                               \<and> is_string (map_of r ''formattedTranslation'')
               | _ \<Rightarrow> False)
           then Inl MalformedBlocks else Inl UnexpectedStructure)"
proof (cases j)
  case (JObject r)
  show ?thesis
  proof (cases "map_of r ''translationBlocks''")
    case None
    then have "''translationBlocks'' \<notin> fst ` set r"
      by (simp add: map_of_eq_None_iff)
    then show ?thesis using None by (simp add: check_response_def JObject)
  next
    case tb: (Some t)
    show ?thesis
    proof (cases "map_of r ''formattedTranslation''")
      case None
      then have "''formattedTranslation'' \<notin> fst ` set r"
        by (simp add: map_of_eq_None_iff)
      then show ?thesis
        using tb None by (cases t) (simp_all add: check_response_def JObject)
    next
      case ft: (Some s)
      have k1: "''translationBlocks'' \<in> fst ` set r"
        using tb by (metis map_of_eq_None_iff option.distinct(1))
      have k2: "''formattedTranslation'' \<in> fst ` set r"
        using ft by (metis map_of_eq_None_iff option.distinct(1))
      show ?thesis
        using tb ft k1 k2
        by (cases t; cases s)
           (simp_all add: check_response_def JObject list_all_block_ok)
    qed
  qed
qed (simp_all add: check_response_def)

lemma present_response_okD:
  assumes p: "present_response_ok j"
  shows "\<exists>r blocks formatted. j = JObject r
           \<and> map_of r ''translationBlocks'' = Some (JArray blocks)
           \<and> map_of r ''formattedTranslation'' = Some (JString formatted)
           \<and> list_all present_block_ok blocks"
proof -
  obtain r where r: "j = JObject r" using p by (cases j) simp_all
  show ?thesis
  proof (cases "map_of r ''translationBlocks''")
    case None
    then show ?thesis using p by (simp add: r)
  next
    case tb: (Some t)
    show ?thesis
    proof (cases "map_of r ''formattedTranslation''")
      case None
      then show ?thesis using p tb by (cases t) (simp_all add: r)
    next
      case ft: (Some s)
      show ?thesis
        using p tb ft by (cases t; cases s) (simp_all add: r)
    qed
  qed
qed

lemma check_response_ok:
  assumes r: "j = JObject r"
    and tb: "map_of r ''translationBlocks'' = Some (JArray blocks)"
    and ft: "map_of r ''formattedTranslation'' = Some (JString formatted)"
    and bs: "list_all present_block_ok blocks"
  shows "check_response j =
           Inr \<lparr>translationBlocks = blocks,
                formattedTranslation = replace_escaped_newlines formatted\<rparr>"
proof -
  have k1: "''translationBlocks'' \<in> fst ` set r"
    using tb by (metis map_of_eq_None_iff option.distinct(1))
  have k2: "''formattedTranslation'' \<in> fst ` set r"
    using ft by (metis map_of_eq_None_iff option.distinct(1))
  show ?thesis
    using k1 k2 bs by (simp add: check_response_def r tb ft list_all_block_ok)
qed

section \<open>The claims\<close>

subsection \<open>C1\<close>

text \<open>
  Claim C1 (vertical centring of the fitted text). The claim says that an accepted layout
  draws line \<open>i\<close> at \<open>startY + i * lineHeight\<close> with
  \<open>startY = y + (height - textHeight) / 2\<close>. The source computes \<^verbatim>\<open>startY\<close> under the
  comment \<^verbatim>\<open>// Center vertically\<close> and then calls
  \<^verbatim>\<open>ctx.fillText(line, startX, y + (i * lineHeight))\<close>: the text starts at the top edge of
  the box. For the text \<^verbatim>\<open>Hi\<close> in the box \<open>(0, 0, 100, 100)\<close>, with half the font size per
  character, size 50 is accepted with one line of height 60, \<^verbatim>\<open>startY\<close> is 20, and the
  one call the code makes draws at vertical coordinate 0.
\<close>

theorem drawTextAndFit_top_aligned:
  "fits half_em_measure ''Hi'' 100 100 50
   \<and> getWrappedLines (half_em_measure 50) ''Hi'' (100 - 4) = [''Hi'']
   \<and> (0::real) + (100 - real (length [''Hi'']) * (real_of_int 50 * 1.2)) / 2 = 20
   \<and> ops (drawTextAndFit half_em_measure blank_ctx ''Hi'' 0 0 100 100)
       = [FillText ''Hi'' 25 0 50 ''white'' ''top'']"
  by (simp add: drawTextAndFit_def fit_loop_unfold fits_def getWrappedLines_def
      wrap_words_def wrap_loop.simps line_ops_def half_em_measure_def blank_ctx_def)

subsection \<open>C2\<close>

text \<open>
  Claim C2 (the word wrap is the specified greedy algorithm). For a non-empty text the
  words are the pieces between the spaces (joining them with spaces gives the text
  back, and no word holds a space), and \<^const>\<open>getWrappedLines\<close> returns what the greedy
  algorithm of the specification returns on these words. Every line is a run of whole
  words joined by spaces, and the non-empty words of the lines, read in order, are the
  non-empty words of the text: no word is split. The last part of the claim, that a
  word at least as wide as the maximum width has a line of its own, fails for a
  measuring function under which a longer string can measure less, and for the empty
  word that two adjacent spaces produce. It holds, as stated here, for a non-empty word
  when extending a line never measures less than either part: the lines are then the
  wrap of the words before it, the word alone, and the wrap of the words after it.
\<close>

theorem getWrappedLines_greedy:
  assumes "text \<noteq> []"
  shows "join_space (split_on CHR '' '' text) = text
       \<and> (\<forall>w\<in>set (split_on CHR '' '' text). CHR '' '' \<notin> set w)
       \<and> getWrappedLines m text mw = greedy_wrap m mw (split_on CHR '' '' text)
       \<and> (\<exists>gs. getWrappedLines m text mw = map join_space gs
              \<and> (\<forall>g\<in>set gs. g \<noteq> [])
              \<and> filter (\<lambda>w. w \<noteq> []) (concat gs)
                  = filter (\<lambda>w. w \<noteq> []) (split_on CHR '' '' text))
       \<and> ((\<forall>c v. m c \<le> m (c @ '' '' @ v)) \<and> (\<forall>c v. m v \<le> m (c @ '' '' @ v))
            \<and> split_on CHR '' '' text = pre @ w # post \<and> w \<noteq> [] \<and> mw \<le> m w
          \<longrightarrow> getWrappedLines m text mw
                = wrap_words m mw pre @ [w] @ wrap_words m mw post)"
proof -
  have g: "getWrappedLines m text mw = greedy_wrap m mw (split_on CHR '' '' text)"
    using assms by (simp add: getWrappedLines_def wrap_words_greedy)
  have s: "\<forall>w\<in>set (split_on CHR '' '' text). CHR '' '' \<notin> set w"
    using split_no_sep by blast
  show ?thesis
    using g s greedy_wrap_groups [of m mw "split_on CHR '' '' text"]
    by (auto simp: join_split wrap_words_greedy greedy_wrap_wide_word)
qed

text \<open>The theorem at a concrete input.\<close>

theorem getWrappedLines_greedy_witness:
  "''a long b'' \<noteq> []
   \<and> getWrappedLines char_count_measure ''a long b'' 3
       = greedy_wrap char_count_measure 3 [''a'', ''long'', ''b'']
   \<and> getWrappedLines char_count_measure ''a long b'' 3 = [''a'', ''long'', ''b'']"
proof -
  have ne: "''a long b'' \<noteq> []" by simp
  have sp: "split_on CHR '' '' ''a long b'' = [''a'', ''long'', ''b'']" by simp
  note t = getWrappedLines_greedy [OF ne, of char_count_measure 3 "[''a'']" "''long''" "[''b'']"]
  have refine: "getWrappedLines char_count_measure ''a long b'' 3
                  = greedy_wrap char_count_measure 3 (split_on CHR '' '' ''a long b'')"
    by (rule conjunct1 [OF conjunct2 [OF conjunct2 [OF t]]])
  have hyp: "(\<forall>c v. char_count_measure c \<le> char_count_measure (c @ '' '' @ v))
      \<and> (\<forall>c v. char_count_measure v \<le> char_count_measure (c @ '' '' @ v))
      \<and> split_on CHR '' '' ''a long b'' = [''a''] @ ''long'' # [''b'']
      \<and> ''long'' \<noteq> [] \<and> 3 \<le> char_count_measure ''long''"
    by (simp add: char_count_measure_def)
  have own: "getWrappedLines char_count_measure ''a long b'' 3
               = wrap_words char_count_measure 3 [''a''] @ [''long'']
                 @ wrap_words char_count_measure 3 [''b'']"
    by (rule mp [OF conjunct2 [OF conjunct2 [OF conjunct2 [OF conjunct2 [OF t]]]] hyp])
  have a: "wrap_words char_count_measure 3 [''a''] = [''a'']"
    by (simp add: wrap_words_def wrap_loop.simps char_count_measure_def)
  have b: "wrap_words char_count_measure 3 [''b''] = [''b'']"
    by (simp add: wrap_words_def wrap_loop.simps char_count_measure_def)
  show ?thesis
    using ne refine own by (simp only: sp a b) simp
qed

text \<open>
  The claim C2 as it is stated fails at two inputs. Under \<^const>\<open>stretch_measure\<close> the
  word \<^verbatim>\<open>aa\<close> measures 10, at least the maximum width 5, and \<^verbatim>\<open>aa b\<close> measures 0, so
  the text \<^verbatim>\<open>aa b\<close> is wrapped into the single line \<^verbatim>\<open>aa b\<close>. With one unit per
  character and maximum width 0, the text \<^verbatim>\<open>a  b\<close> (two spaces) has the empty word
  between the spaces, of width 0; the lines are \<^verbatim>\<open>a\<close> and \<^verbatim>\<open>b\<close>, and the empty word
  has no line.
\<close>

theorem getWrappedLines_wide_word_counterexample:
  "(5 \<le> stretch_measure ''aa''
      \<and> ''aa'' \<in> set (split_on CHR '' '' ''aa b'')
      \<and> getWrappedLines stretch_measure ''aa b'' 5 = [''aa b''])
   \<and> (0 \<le> char_count_measure []
      \<and> [] \<in> set (split_on CHR '' '' ''a  b'')
      \<and> getWrappedLines char_count_measure ''a  b'' 0 = [''a'', ''b''])"
  by (simp add: getWrappedLines_def wrap_words_def wrap_loop.simps stretch_measure_def
      char_count_measure_def)

subsection \<open>C3\<close>



subsection \<open>C4\<close>

text \<open>
  Claim C4 (rejection of malformed responses), with presence in place of numeric type,
  as the code checks it. The translation call throws exactly when the parsed response
  is not an object with \<^verbatim>\<open>translationBlocks\<close> an array and \<^verbatim>\<open>formattedTranslation\<close> a
  string in which every block is an object with \<^verbatim>\<open>originalText\<close>, \<^verbatim>\<open>translatedText\<close>
  and a \<^verbatim>\<open>boundingBox\<close> object that has the four fields \<^verbatim>\<open>x\<close>, \<^verbatim>\<open>y\<close>, \<^verbatim>\<open>width\<close>,
  \<^verbatim>\<open>height\<close>, whatever their values. A response that passes is returned with its
  blocks unchanged and the escaped line breaks of its formatted string replaced. After
  \<^verbatim>\<open>handleTranslate\<close> the stored result is the returned value on success and is empty on
  an error; when no file is selected the stored result is left as it was.
\<close>

theorem translateImageContent_rejects:
  "((\<exists>e. translateImageContent j = Inl e) \<longleftrightarrow> \<not> present_response_ok j)
   \<and> (present_response_ok j \<longrightarrow>
        (\<exists>r blocks formatted. j = JObject r
           \<and> map_of r ''translationBlocks'' = Some (JArray blocks)
           \<and> map_of r ''formattedTranslation'' = Some (JString formatted)
           \<and> translateImageContent j =
               Inr \<lparr>translationBlocks = blocks,
                    formattedTranslation = replace_escaped_newlines formatted\<rparr>))
   \<and> translationResult (handleTranslate j st) =
       (if file st = None \<or> fileDataURL st = None \<or> fileDataURL st = Some []
        then translationResult st
        else (case translateImageContent j of Inl e \<Rightarrow> None | Inr result \<Rightarrow> Some result))"
proof -
  have ok: "\<exists>r blocks formatted. j = JObject r
           \<and> map_of r ''translationBlocks'' = Some (JArray blocks)
           \<and> map_of r ''formattedTranslation'' = Some (JString formatted)
           \<and> translateImageContent j =
               Inr \<lparr>translationBlocks = blocks,
                    formattedTranslation = replace_escaped_newlines formatted\<rparr>"
    if p: "present_response_ok j"
  proof -
    obtain r blocks formatted where r: "j = JObject r"
      and tb: "map_of r ''translationBlocks'' = Some (JArray blocks)"
      and ft: "map_of r ''formattedTranslation'' = Some (JString formatted)"
      and bs: "list_all present_block_ok blocks"
      using present_response_okD [OF p] by blast
    have "translateImageContent j =
               Inr \<lparr>translationBlocks = blocks,
                    formattedTranslation = replace_escaped_newlines formatted\<rparr>"
      by (simp add: translateImageContent_def check_response_ok [OF r tb ft bs])
    then show ?thesis using r tb ft by blast
  qed
  have bad: "\<exists>e. translateImageContent j = Inl e" if "\<not> present_response_ok j"
    using that by (simp add: translateImageContent_def check_response_cases)
  have iff: "(\<exists>e. translateImageContent j = Inl e) \<longleftrightarrow> \<not> present_response_ok j"
  proof
    assume l: "\<exists>e. translateImageContent j = Inl e"
    show "\<not> present_response_ok j"
    proof
      assume "present_response_ok j"
      then obtain v where "translateImageContent j = Inr v" using ok by blast
      then show False using l by simp
    qed
  next
    assume "\<not> present_response_ok j"
    then show "\<exists>e. translateImageContent j = Inl e" by (rule bad)
  qed
  have st: "translationResult (handleTranslate j st) =
       (if file st = None \<or> fileDataURL st = None \<or> fileDataURL st = Some []
        then translationResult st
        else (case translateImageContent j of Inl e \<Rightarrow> None | Inr result \<Rightarrow> Some result))"
    by (simp add: handleTranslate_def Let_def split: sum.splits)
  show ?thesis
    by (rule conjI [OF iff conjI [OF impI [OF ok] st]])
qed

text \<open>The theorem at a concrete input.\<close>

theorem translateImageContent_rejects_witness:
  "translateImageContent (JObject [(''translationBlocks'', JArray [])])
     = Inl (FailedToGetTranslation UnexpectedStructure)
   \<and> translationResult (handleTranslate (JObject [(''translationBlocks'', JArray [])])
        \<lparr>file = Some ''scan.png'', fileDataURL = Some ''data:image/png;base64,AAAA'',
         translationResult = None, isLoading = False, error = None\<rparr>) = None
   \<and> translateImageContent
        (JObject [(''translationBlocks'', JArray [JObject
            [(''originalText'', JString ''Hola''), (''translatedText'', JString ''Hello''),
             (''boundingBox'', JObject [(''x'', JNumber 10), (''y'', JNumber 10),
                (''width'', JNumber 30), (''height'', JNumber 10)])]]),
          (''formattedTranslation'', JString ''Hello'')])
     = Inr \<lparr>translationBlocks = [JObject
            [(''originalText'', JString ''Hola''), (''translatedText'', JString ''Hello''),
             (''boundingBox'', JObject [(''x'', JNumber 10), (''y'', JNumber 10),
                (''width'', JNumber 30), (''height'', JNumber 10)])]],
          formattedTranslation = ''Hello''\<rparr>"
proof -
  let ?bad = "JObject [(''translationBlocks'', JArray [])]"
  let ?good = "JObject [(''translationBlocks'', JArray [JObject
            [(''originalText'', JString ''Hola''), (''translatedText'', JString ''Hello''),
             (''boundingBox'', JObject [(''x'', JNumber 10), (''y'', JNumber 10),
                (''width'', JNumber 30), (''height'', JNumber 10)])]]),
          (''formattedTranslation'', JString ''Hello'')]"
  let ?st = "\<lparr>file = Some ''scan.png'', fileDataURL = Some ''data:image/png;base64,AAAA'',
         translationResult = None, isLoading = False, error = None\<rparr>"
  note bad = translateImageContent_rejects [of ?bad ?st]
  note good = translateImageContent_rejects [of ?good ?st]
  have nb: "\<not> present_response_ok ?bad" by simp
  have pg: "present_response_ok ?good" by simp
  obtain e where e: "translateImageContent ?bad = Inl e"
    using iffD2 [OF conjunct1 [OF bad] nb] by (rule exE)
  have v: "translateImageContent ?bad = Inl (FailedToGetTranslation UnexpectedStructure)"
    by (simp add: translateImageContent_def check_response_cases)
  have stored: "translationResult (handleTranslate ?bad ?st) =
      (case translateImageContent ?bad of Inl e \<Rightarrow> None | Inr result \<Rightarrow> Some result)"
    by (simp add: conjunct2 [OF conjunct2 [OF bad]])
  have none: "translationResult (handleTranslate ?bad ?st) = None"
    by (simp add: stored e)
  obtain r blocks formatted where g: "?good = JObject r"
    "map_of r ''translationBlocks'' = Some (JArray blocks)"
    "map_of r ''formattedTranslation'' = Some (JString formatted)"
    "translateImageContent ?good =
       Inr \<lparr>translationBlocks = blocks,
            formattedTranslation = replace_escaped_newlines formatted\<rparr>"
    using mp [OF conjunct1 [OF conjunct2 [OF good]] pg] by blast
  have r: "r = [(''translationBlocks'', JArray [JObject
            [(''originalText'', JString ''Hola''), (''translatedText'', JString ''Hello''),
             (''boundingBox'', JObject [(''x'', JNumber 10), (''y'', JNumber 10),
                (''width'', JNumber 30), (''height'', JNumber 10)])]]),
          (''formattedTranslation'', JString ''Hello'')]"
    using g(1) by simp
  have b: "blocks = [JObject
            [(''originalText'', JString ''Hola''), (''translatedText'', JString ''Hello''),
             (''boundingBox'', JObject [(''x'', JNumber 10), (''y'', JNumber 10),
                (''width'', JNumber 30), (''height'', JNumber 10)])]]"
    using g(2) unfolding r by simp
  have f: "formatted = ''Hello''"
    using g(3) unfolding r by simp
  have ok: "translateImageContent ?good =
       Inr \<lparr>translationBlocks = [JObject
            [(''originalText'', JString ''Hola''), (''translatedText'', JString ''Hello''),
             (''boundingBox'', JObject [(''x'', JNumber 10), (''y'', JNumber 10),
                (''width'', JNumber 30), (''height'', JNumber 10)])]],
          formattedTranslation = ''Hello''\<rparr>"
    using g(4) unfolding b f by simp
  show ?thesis
    by (rule conjI [OF v conjI [OF none ok]])
qed

text \<open>
  The claim C4 as it is stated fails where a field of the bounding box is present and
  not a number: with \<^verbatim>\<open>x\<close> the string \<^verbatim>\<open>left\<close> the response does not meet the stated
  contract, and the call returns it.
\<close>

theorem translateImageContent_non_numeric_counterexample:
  "\<not> spec_response_ok
        (JObject [(''translationBlocks'', JArray [JObject
            [(''originalText'', JString ''Hola''), (''translatedText'', JString ''Hello''),
             (''boundingBox'', JObject [(''x'', JString ''left''), (''y'', JNumber 10),
                (''width'', JNumber 30), (''height'', JNumber 10)])]]),
          (''formattedTranslation'', JString ''Hello'')])
   \<and> translateImageContent
        (JObject [(''translationBlocks'', JArray [JObject
            [(''originalText'', JString ''Hola''), (''translatedText'', JString ''Hello''),
             (''boundingBox'', JObject [(''x'', JString ''left''), (''y'', JNumber 10),
                (''width'', JNumber 30), (''height'', JNumber 10)])]]),
          (''formattedTranslation'', JString ''Hello'')])
     = Inr \<lparr>translationBlocks = [JObject
            [(''originalText'', JString ''Hola''), (''translatedText'', JString ''Hello''),
             (''boundingBox'', JObject [(''x'', JString ''left''), (''y'', JNumber 10),
                (''width'', JNumber 30), (''height'', JNumber 10)])]],
          formattedTranslation = ''Hello''\<rparr>"
  by (simp add: translateImageContent_def check_response_cases handleTranslate_def)

subsection \<open>C5\<close>

text \<open>
  Claim C5 (percentage to pixel conversion), with the width and the height of the box
  required to be non-negative. The conversion is \<open>(p / 100) * ref\<close> for each of the four
  fields, against the reference width for \<^verbatim>\<open>x\<close> and \<^verbatim>\<open>width\<close> and the reference height
  for \<^verbatim>\<open>y\<close> and \<^verbatim>\<open>height\<close>. For a box with all four fields non-negative,
  \<open>x + width \<le> 100\<close> and \<open>y + height \<le> 100\<close>, and positive reference dimensions, each
  pixel value lies between 0 and its reference dimension. The box
  \<open>{x: 10, y: 10, width: 30, height: 10}\<close> against 1000 by 500 gives \<open>(100, 50)\<close> with size
  \<open>(300, 50)\<close>.
\<close>

theorem pixel_box_in_range:
  assumes "0 \<le> box_x b" and "0 \<le> box_y b" and "0 \<le> box_width b" and "0 \<le> box_height b"
    and "box_x b + box_width b \<le> 100" and "box_y b + box_height b \<le> 100"
    and "0 < refWidth" and "0 < refHeight"
  shows "pixel_box b refWidth refHeight =
           ((box_x b / 100) * refWidth, (box_y b / 100) * refHeight,
            (box_width b / 100) * refWidth, (box_height b / 100) * refHeight)
       \<and> 0 \<le> (box_x b / 100) * refWidth \<and> (box_x b / 100) * refWidth \<le> refWidth
       \<and> 0 \<le> (box_y b / 100) * refHeight \<and> (box_y b / 100) * refHeight \<le> refHeight
       \<and> 0 \<le> (box_width b / 100) * refWidth \<and> (box_width b / 100) * refWidth \<le> refWidth
       \<and> 0 \<le> (box_height b / 100) * refHeight \<and> (box_height b / 100) * refHeight \<le> refHeight
       \<and> pixel_box \<lparr>box_x = 10, box_y = 10, box_width = 30, box_height = 10\<rparr> 1000 500
           = (100, 50, 300, 50)"
proof -
  have scale: "0 \<le> (p / 100) * r \<and> (p / 100) * r \<le> r"
    if "0 \<le> p" and "p \<le> 100" and "0 < r" for p r :: real
  proof -
    have "p / 100 \<le> 1" using that by simp
    then have "(p / 100) * r \<le> 1 * r" using that by (intro mult_right_mono) simp_all
    moreover have "0 \<le> (p / 100) * r" using that by simp
    ultimately show ?thesis by simp
  qed
  have x: "box_x b \<le> 100" and w: "box_width b \<le> 100"
    and y: "box_y b \<le> 100" and h: "box_height b \<le> 100"
    using assms by linarith+
  show ?thesis
    using scale [OF assms(1) x assms(7)] scale [OF assms(2) y assms(8)]
      scale [OF assms(3) w assms(7)] scale [OF assms(4) h assms(8)]
    by (simp add: pixel_box_def)
qed

text \<open>The theorem at a concrete input.\<close>

theorem pixel_box_in_range_witness:
  "pixel_box \<lparr>box_x = 10, box_y = 10, box_width = 30, box_height = 10\<rparr> 1000 500
     = (100, 50, 300, 50)
   \<and> (0::real) \<le> 100 \<and> (100::real) \<le> 1000 \<and> (0::real) \<le> 50 \<and> (50::real) \<le> 500
   \<and> (0::real) \<le> 300 \<and> (300::real) \<le> 1000"
  using pixel_box_in_range
    [of "\<lparr>box_x = 10, box_y = 10, box_width = 30, box_height = 10\<rparr>" 1000 500]
  by simp

text \<open>
  The claim C5 as it is stated fails for a negative width: the box
  \<open>{x: 0, y: 0, width: -50, height: 0}\<close> meets the four stated conditions, and its pixel
  width against 1000 is \<open>-500\<close>.
\<close>

theorem pixel_box_negative_width_counterexample:
  "0 \<le> box_x \<lparr>box_x = 0, box_y = 0, box_width = - 50, box_height = 0\<rparr>
   \<and> 0 \<le> box_y \<lparr>box_x = 0, box_y = 0, box_width = - 50, box_height = 0\<rparr>
   \<and> box_x \<lparr>box_x = 0, box_y = 0, box_width = - 50, box_height = 0\<rparr>
       + box_width \<lparr>box_x = 0, box_y = 0, box_width = - 50, box_height = 0\<rparr> \<le> 100
   \<and> box_y \<lparr>box_x = 0, box_y = 0, box_width = - 50, box_height = 0\<rparr>
       + box_height \<lparr>box_x = 0, box_y = 0, box_width = - 50, box_height = 0\<rparr> \<le> 100
   \<and> (0::real) < 1000 \<and> (0::real) < 500
   \<and> pixel_box \<lparr>box_x = 0, box_y = 0, box_width = - 50, box_height = 0\<rparr> 1000 500
       = (0, 0, - 500, 0)
   \<and> \<not> (0::real) \<le> - 500"
  by (simp add: pixel_box_def)

subsection \<open>C6\<close>

text \<open>
  Claim C6 (the text fitting is total). The claim says that the routine returns for every
  text, box and measuring function, at worst drawing at size 8 inside the clip. In
  double arithmetic \<^verbatim>\<open>fontSize -= 1\<close> is lost on a large candidate. For the text \<^verbatim>\<open>a b\<close>
  in a box of width 5 and height \<open>4e16\<close>, with half the font size per character, the
  first candidate is \<open>2e16\<close>, the text wraps to two lines (the maximum width is 1), the
  text height \<open>4.8e16\<close> is above the height of the box, and the rounded difference of
  \<open>2e16\<close> and 1 is \<open>2e16\<close> again: the loop never ends, and the fallback, which the source
  announces for a text that cannot be fitted, is never reached. In a box of height 40
  the same call comes down from candidate 20 and returns with size 16.
\<close>

theorem drawTextAndFit_double_never_returns:
  "\<lfloor>js_div 40000000000000000 2\<rfloor> = 20000000000000000
   \<and> getWrappedLines (half_em_measure 20000000000000000) ''a b'' (js_sub 5 4) = [''a'', ''b'']
   \<and> js_mul 2 (js_mul 20000000000000000 (round_double 1.2)) = 48000000000000000
   \<and> js_sub 20000000000000000 1 = 20000000000000000
   \<and> drawTextAndFit_double half_em_measure blank_ctx ''a b'' 0 0 5 40000000000000000 = None
   \<and> drawTextAndFit_double half_em_measure blank_ctx ''a b'' 0 0 5 40 =
       Some (blank_ctx\<lparr>font := 16, textBaseline := ''top'', fillStyle := ''white'',
         ops := [FillText ''a'' (- (3 / 2)) 0 16 ''white'' ''top'',
                 FillText ''b'' (- (3 / 2)) (5404319552844595 / 281474976710656) 16
                   ''white'' ''top'']\<rparr>)"
proof -
  have start: "\<lfloor>js_div 40000000000000000 2\<rfloor> = 20000000000000000"
    by (simp add: double_eval half_em_measure_def getWrappedLines_def wrap_words_def
        wrap_loop.simps)
  have wrap: "getWrappedLines (half_em_measure 20000000000000000) ''a b'' (js_sub 5 4)
                = [''a'', ''b'']"
    by (simp add: double_eval half_em_measure_def getWrappedLines_def wrap_words_def
        wrap_loop.simps)
  have height: "js_mul 2 (js_mul 20000000000000000 (round_double 1.2)) = 48000000000000000"
    by (simp add: double_eval half_em_measure_def getWrappedLines_def wrap_words_def
        wrap_loop.simps)
  have same: "js_sub 20000000000000000 1 = 20000000000000000"
    by (simp add: double_eval half_em_measure_def getWrappedLines_def wrap_words_def
        wrap_loop.simps)
  have rejected: "\<not> js_mul (real (length (getWrappedLines (half_em_measure 20000000000000000)
                      ''a b'' (js_sub 5 4))))
                    (js_mul (real_of_int 20000000000000000) (round_double 1.2))
                  \<le> 40000000000000000"
    unfolding wrap using height by simp
  have absorbed: "\<lfloor>js_sub (real_of_int 20000000000000000) 1\<rfloor> = 20000000000000000"
    using same by simp
  have hang: "drawTextAndFit_double half_em_measure blank_ctx ''a b'' 0 0 5 40000000000000000
                = None"
    unfolding drawTextAndFit_double_def start
    by (rule fit_loop_double_absorbed
          [where f = 20000000000000000 and M = half_em_measure, OF _ rejected absorbed])
       simp
  have returns: "drawTextAndFit_double half_em_measure blank_ctx ''a b'' 0 0 5 40 =
       Some (blank_ctx\<lparr>font := 16, textBaseline := ''top'', fillStyle := ''white'',
         ops := [FillText ''a'' (- (3 / 2)) 0 16 ''white'' ''top'',
                 FillText ''b'' (- (3 / 2)) (5404319552844595 / 281474976710656) 16
                   ''white'' ''top'']\<rparr>)"
    by (simp add: drawTextAndFit_double_def fit_loop_double.simps draw_lines_double.simps
        fillText_def measureText_def blank_ctx_def double_eval half_em_measure_def
        getWrappedLines_def wrap_words_def wrap_loop.simps)
  show ?thesis
    by (rule conjI [OF start conjI [OF wrap conjI [OF height conjI [OF same
          conjI [OF hang returns]]]]])
qed

subsection \<open>C7\<close>

text \<open>
  Claim C7 (degenerate boxes are skipped). The claim says that a block under one pixel is
  skipped without an error and that every other block is filled and has its text
  fitted, in array order. The skip is as the claim says: of a block \<open>5/8\<close> of a pixel
  wide followed by a block of 300 by 50 pixels, only the second is drawn. The rest
  fails through the loop of C6: a first block of 500 by \<open>4e16\<close> pixels is filled and its
  fitting never returns, so the export never reaches the block after it.
\<close>

theorem export_stops_at_tall_block:
  "pixel_box_double
       \<lparr>box_x = 0, box_y = 0, box_width = 50, box_height = 8000000000000000\<rparr> 1000 500
     = (0, 0, 500, 40000000000000000)
   \<and> export_canvas half_em_measure 1000 500
       [\<lparr>originalText = ''x'', translatedText = ''a b'',
         boundingBox = \<lparr>box_x = 0, box_y = 0, box_width = 50,
                         box_height = 8000000000000000\<rparr>\<rparr>,
        \<lparr>originalText = ''y'', translatedText = ''Hi'',
         boundingBox = \<lparr>box_x = 10, box_y = 10, box_width = 30, box_height = 10\<rparr>\<rparr>]
     = None
   \<and> pixel_box_double
       \<lparr>box_x = 10, box_y = 10, box_width = 0.0625, box_height = 10\<rparr> 1000 500
     = (100, 50, 5 / 8, 50)
   \<and> export_canvas half_em_measure 1000 500
       [\<lparr>originalText = ''x'', translatedText = ''No'',
         boundingBox = \<lparr>box_x = 10, box_y = 10, box_width = 0.0625, box_height = 10\<rparr>\<rparr>,
        \<lparr>originalText = ''y'', translatedText = ''Hi'',
         boundingBox = \<lparr>box_x = 10, box_y = 10, box_width = 30, box_height = 10\<rparr>\<rparr>]
     = Some (blank_ctx\<lparr>font := 25, textBaseline := ''top'', fillStyle := ''white'',
         ops := [DrawImage 0 0, FillRect 100 50 300 50 ''#111827'',
                 FillText ''Hi'' (475 / 2) 50 25 ''white'' ''top'']\<rparr>)"
proof -
  have box: "pixel_box_double
       \<lparr>box_x = 0, box_y = 0, box_width = 50, box_height = 8000000000000000\<rparr> 1000 500
     = (0, 0, 500, 40000000000000000)"
    by (simp add: pixel_box_double_def double_eval)
  have start: "\<lfloor>js_div 40000000000000000 2\<rfloor> = 20000000000000000"
    by (simp add: double_eval half_em_measure_def getWrappedLines_def wrap_words_def
        wrap_loop.simps)
  have rejected: "\<not> js_mul (real (length (getWrappedLines (half_em_measure 20000000000000000)
                      ''a b'' (js_sub 500 4))))
                    (js_mul (real_of_int 20000000000000000) (round_double 1.2))
                  \<le> 40000000000000000"
    by (simp add: double_eval half_em_measure_def getWrappedLines_def wrap_words_def
        wrap_loop.simps)
  have absorbed: "\<lfloor>js_sub (real_of_int 20000000000000000) 1\<rfloor> = 20000000000000000"
    by (simp add: double_eval half_em_measure_def getWrappedLines_def wrap_words_def
        wrap_loop.simps)
  have hang: "drawTextAndFit_double half_em_measure ctx ''a b'' 0 0 500 40000000000000000
                = None" for ctx
    unfolding drawTextAndFit_double_def start
    by (rule fit_loop_double_absorbed
          [where f = 20000000000000000 and M = half_em_measure, OF _ rejected absorbed])
       simp
  have stop: "export_canvas half_em_measure 1000 500
       [\<lparr>originalText = ''x'', translatedText = ''a b'',
         boundingBox = \<lparr>box_x = 0, box_y = 0, box_width = 50,
                         box_height = 8000000000000000\<rparr>\<rparr>,
        \<lparr>originalText = ''y'', translatedText = ''Hi'',
         boundingBox = \<lparr>box_x = 10, box_y = 10, box_width = 30, box_height = 10\<rparr>\<rparr>]
     = None"
    by (simp add: export_canvas_def draw_block_def box hang)
  have small: "pixel_box_double
       \<lparr>box_x = 10, box_y = 10, box_width = 0.0625, box_height = 10\<rparr> 1000 500
     = (100, 50, 5 / 8, 50)"
    by (simp add: pixel_box_double_def double_eval)
  have completes: "export_canvas half_em_measure 1000 500
       [\<lparr>originalText = ''x'', translatedText = ''No'',
         boundingBox = \<lparr>box_x = 10, box_y = 10, box_width = 0.0625, box_height = 10\<rparr>\<rparr>,
        \<lparr>originalText = ''y'', translatedText = ''Hi'',
         boundingBox = \<lparr>box_x = 10, box_y = 10, box_width = 30, box_height = 10\<rparr>\<rparr>]
     = Some (blank_ctx\<lparr>font := 25, textBaseline := ''top'', fillStyle := ''white'',
         ops := [DrawImage 0 0, FillRect 100 50 300 50 ''#111827'',
                 FillText ''Hi'' (475 / 2) 50 25 ''white'' ''top'']\<rparr>)"
    by (simp add: export_canvas_def draw_block_def pixel_box_double_def drawImage_def
        fillRect_def drawTextAndFit_double_def fit_loop_double.simps
        draw_lines_double.simps fillText_def measureText_def blank_ctx_def double_eval
        half_em_measure_def getWrappedLines_def wrap_words_def wrap_loop.simps)
  show ?thesis
    by (rule conjI [OF box conjI [OF stop conjI [OF small completes]]])
qed

subsection \<open>C8\<close>

text \<open>
  Claim C8 (popover placement). When \<open>y + height \<le> 70\<close> the popover's top is
  \<open>y + height\<close> percent with the transform \<^verbatim>\<open>translateY(8px)\<close>; when \<open>y + height > 70\<close>
  its top is \<open>y\<close> percent with the transform \<^verbatim>\<open>translateY(-100%) translateY(-8px)\<close>.
  The scenario values 85 and 40 are the two instances of the example after the theorem.
\<close>

theorem popover_placement:
  "fst (handleMouseEnter b) = b
   \<and> style_left (snd (handleMouseEnter b)) = box_x (boundingBox b)
   \<and> (box_y (boundingBox b) + box_height (boundingBox b) \<le> 70 \<longrightarrow>
        style_top (snd (handleMouseEnter b))
          = box_y (boundingBox b) + box_height (boundingBox b)
        \<and> style_transform (snd (handleMouseEnter b)) = ''translateY(8px)'')
   \<and> (box_y (boundingBox b) + box_height (boundingBox b) > 70 \<longrightarrow>
        style_top (snd (handleMouseEnter b)) = box_y (boundingBox b)
        \<and> style_transform (snd (handleMouseEnter b))
            = ''translateY(-100%) translateY(-8px)'')"
  by (simp add: handleMouseEnter_def Let_def)

text \<open>The theorem at a concrete input.\<close>

theorem popover_placement_witness:
  "style_top (snd (handleMouseEnter
      \<lparr>originalText = ''a'', translatedText = ''b'',
       boundingBox = \<lparr>box_x = 10, box_y = 60, box_width = 5, box_height = 25\<rparr>\<rparr>)) = 60
   \<and> style_transform (snd (handleMouseEnter
      \<lparr>originalText = ''a'', translatedText = ''b'',
       boundingBox = \<lparr>box_x = 10, box_y = 60, box_width = 5, box_height = 25\<rparr>\<rparr>))
       = ''translateY(-100%) translateY(-8px)''
   \<and> style_top (snd (handleMouseEnter
      \<lparr>originalText = ''a'', translatedText = ''b'',
       boundingBox = \<lparr>box_x = 10, box_y = 30, box_width = 5, box_height = 10\<rparr>\<rparr>)) = 40
   \<and> style_transform (snd (handleMouseEnter
      \<lparr>originalText = ''a'', translatedText = ''b'',
       boundingBox = \<lparr>box_x = 10, box_y = 30, box_width = 5, box_height = 10\<rparr>\<rparr>))
       = ''translateY(8px)''"
  using popover_placement
    [of "\<lparr>originalText = ''a'', translatedText = ''b'',
         boundingBox = \<lparr>box_x = 10, box_y = 60, box_width = 5, box_height = 25\<rparr>\<rparr>"]
    popover_placement
    [of "\<lparr>originalText = ''a'', translatedText = ''b'',
         boundingBox = \<lparr>box_x = 10, box_y = 30, box_width = 5, box_height = 10\<rparr>\<rparr>"]
  by simp

subsection \<open>C9\<close>

text \<open>
  Claim C9 (file name of the export). The claim says the name is the original name
  without its extension, then \<^verbatim>\<open>-translated.png\<close>. For a name with a dot the code does
  that: \<^verbatim>\<open>scan.png\<close> gives \<^verbatim>\<open>scan-translated.png\<close>. For a name with no dot
  \<^verbatim>\<open>lastIndexOf('.')\<close> is \<open>-1\<close>, \<^verbatim>\<open>substring(0, -1)\<close> is the empty string, and the whole
  name is lost: \<^verbatim>\<open>scan\<close> gives \<^verbatim>\<open>-translated.png\<close>.
\<close>

theorem download_name_without_dot:
  "lastIndexOf ''scan'' CHR ''.'' = - 1
   \<and> download_name ''scan'' = ''-translated.png''
   \<and> download_name ''scan.png'' = ''scan-translated.png''"
  by (simp add: download_name_def lastIndexOf_def substring_def)

subsection \<open>C10\<close>

text \<open>
  Claim C10 (the wrap keeps the content). For a text made of one or more non-empty words
  without spaces, separated by single spaces, the lines that \<^const>\<open>getWrappedLines\<close>
  returns, joined by single spaces, are the text again, for every maximum width and
  every measuring function.
\<close>

theorem wrap_preserves_content:
  assumes "ws \<noteq> []" and "\<forall>w\<in>set ws. w \<noteq> [] \<and> CHR '' '' \<notin> set w"
  shows "join_space (getWrappedLines m (join_space ws) mw) = join_space ws"
proof -
  obtain w rest where ws: "ws = w # rest" using assms(1) by (cases ws) auto
  then have "w \<noteq> []" using assms(2) by simp
  then have ne: "join_space ws \<noteq> []" by (simp add: ws join_space_concat)
  have "split_on CHR '' '' (join_space ws) = ws"
    using assms by (intro split_join) auto
  then have "getWrappedLines m (join_space ws) mw = greedy_wrap m mw ws"
    using ne by (simp add: getWrappedLines_def wrap_words_greedy)
  then show ?thesis using assms by (simp add: greedy_wrap_content)
qed

text \<open>The theorem at a concrete input.\<close>

theorem wrap_preserves_content_witness:
  "getWrappedLines char_count_measure ''the quick brown fox'' 10 = [''the quick'', ''brown fox'']
   \<and> join_space (getWrappedLines char_count_measure ''the quick brown fox'' 10)
       = ''the quick brown fox''"
proof -
  have j: "join_space [''the'', ''quick'', ''brown'', ''fox''] = ''the quick brown fox''"
    by simp
  have "join_space (getWrappedLines char_count_measure
          (join_space [''the'', ''quick'', ''brown'', ''fox'']) 10)
        = join_space [''the'', ''quick'', ''brown'', ''fox'']"
    by (rule wrap_preserves_content) auto
  moreover have "getWrappedLines char_count_measure ''the quick brown fox'' 10
                   = [''the quick'', ''brown fox'']"
    by (simp add: getWrappedLines_def wrap_words_def wrap_loop.simps char_count_measure_def)
  ultimately show ?thesis by (simp only: j)
qed

end
